theory Spec2Isabelle
  imports Main "HOL-Library.Multiset" "HOL-Library.Sublist"
begin

section \<open>Python values, types and exceptions\<close>

text \<open>
  The values that \<open>json.loads\<close>, \<open>eval\<close> and \<open>ast.literal_eval\<close> hand to the
  program. A string is a list of characters, each character standing for the code point of
  the same number (0 to 255). A dictionary is an association list in insertion order. A
  float is kept as the decimal number that was read (mantissa and power of ten), before it
  is rounded to a double. \<open>PObject\<close> stands for any other object, given by the name
  of its class and by its \<open>repr\<close> (without the address, where the \<open>repr\<close> has one).
\<close>

datatype pyfloat = Decimal int int | PosInfinity | NegInfinity | NaN

datatype pyval =
    PNone
  | PBool bool
  | PInt int
  | PFloat pyfloat
  | PStr string
  | PList "pyval list"
  | PDict "(pyval \<times> pyval) list"
  | PObject string string

datatype pytype = NoneType | TBool | TInt | TFloat | TStr | TList | TDict | TClass string

fun py_type :: "pyval \<Rightarrow> pytype" where
  "py_type PNone = NoneType"
| "py_type (PBool b) = TBool"
| "py_type (PInt i) = TInt"
| "py_type (PFloat f) = TFloat"
| "py_type (PStr s) = TStr"
| "py_type (PList xs) = TList"
| "py_type (PDict kvs) = TDict"
| "py_type (PObject cls r) = TClass cls"

text \<open>
  An exception is its class and its message (\<open>str(e)\<close>). \<open>SystemExit\<close>,
  \<open>KeyboardInterrupt\<close> and \<open>GeneratorExit\<close> derive from \<open>BaseException\<close> only, so
  a handler \<open>except Exception\<close> does not catch them.
\<close>

datatype exc_class =
    SyntaxError | NameError | TypeError | ValueError | IndexError | ZeroDivisionError
  | StopIteration | RecursionError | SystemExit | KeyboardInterrupt | GeneratorExit

datatype exc = Exc exc_class string

fun exc_class_of :: "exc \<Rightarrow> exc_class" where
  "exc_class_of (Exc c m) = c"

fun exc_message :: "exc \<Rightarrow> string" where
  "exc_message (Exc c m) = m"

definition is_Exception :: "exc \<Rightarrow> bool" where
  "is_Exception e =
     (exc_class_of e \<noteq> SystemExit \<and> exc_class_of e \<noteq> KeyboardInterrupt
      \<and> exc_class_of e \<noteq> GeneratorExit)"

section \<open>Calling a function of the class through an instance\<close>

text \<open>
  \<open>self.f(a, b)\<close> calls the function \<open>f\<close> of the class with the instance placed before
  the written arguments. Python binds the positional arguments to the parameters of the
  \<open>def\<close> before the body runs: more arguments than parameters, or fewer, is a
  \<open>TypeError\<close> raised at the call. The messages are those of CPython 3.10 and later,
  which name the function by its qualified name.
\<close>

datatype arg = SelfArg | StrArg string | ListArg "pyval list"

fun show_nat :: "nat \<Rightarrow> string" where
  "show_nat n =
     (if n < 10 then [''0123456789'' ! n]
      else show_nat (n div 10) @ [''0123456789'' ! (n mod 10)])"

declare show_nat.simps [simp del]

fun quote_names :: "string list \<Rightarrow> string" where
  "quote_names [] = []"
| "quote_names [a] = [CHR 0x27] @ a @ [CHR 0x27]"
| "quote_names [a, b] = [CHR 0x27] @ a @ [CHR 0x27] @ '' and '' @ [CHR 0x27] @ b @ [CHR 0x27]"
| "quote_names (a # rest) = [CHR 0x27] @ a @ [CHR 0x27] @ '', '' @ quote_names rest"

definition too_many_arguments :: "string \<Rightarrow> nat \<Rightarrow> nat \<Rightarrow> exc" where
  "too_many_arguments qualname nparams ngiven =
     Exc TypeError
       (qualname @ ''() takes '' @ show_nat nparams @ '' positional argument''
        @ (if nparams = 1 then [] else ''s'') @ '' but '' @ show_nat ngiven
        @ (if ngiven = 1 then '' was'' else '' were'') @ '' given'')"

definition missing_arguments :: "string \<Rightarrow> string list \<Rightarrow> exc" where
  "missing_arguments qualname names =
     Exc TypeError
       (qualname @ ''() missing '' @ show_nat (length names)
        @ '' required positional argument'' @ (if length names = 1 then [] else ''s'')
        @ '': '' @ quote_names names)"

definition call_function ::
  "string \<Rightarrow> string list \<Rightarrow> (arg list \<Rightarrow> exc + 'a) \<Rightarrow> arg list \<Rightarrow> exc + 'a" where
  "call_function qualname params body args =
     (if length params < length args
        then Inl (too_many_arguments qualname (length params) (length args))
      else if length args < length params
        then Inl (missing_arguments qualname (drop (length args) params))
      else body args)"

definition call_method ::
  "string \<Rightarrow> string list \<Rightarrow> (arg list \<Rightarrow> exc + 'a) \<Rightarrow> arg list \<Rightarrow> exc + 'a" where
  "call_method qualname params body args = call_function qualname params body (SelfArg # args)"

section \<open>\<open>str\<close> and \<open>repr\<close>\<close>

text \<open>
  The rendering of a value by \<open>str\<close>: a string is itself, any other value is its
  \<open>repr\<close>. The \<open>repr\<close> of a string takes single quotes, or double quotes when the
  string holds a single quote and no double quote, and escapes the backslash, the quote
  and the characters that are not printable. The \<open>repr\<close> of a float is the shortest
  numeral that reads back as the same double, which needs the rounding this model does not
  have: a float is rendered by its mantissa and its power of ten, and no statement below
  renders one.
\<close>

definition show_int :: "int \<Rightarrow> string" where
  "show_int i = (if i < 0 then CHR ''-'' # show_nat (nat (- i)) else show_nat (nat i))"

definition repr_char :: "char \<Rightarrow> char \<Rightarrow> string" where
  "repr_char q c =
     (let n = (of_char c :: nat)
      in if c = q \<or> c = CHR 0x5C then [CHR 0x5C, c]
         else if c = CHR 0x09 then [CHR 0x5C, CHR ''t'']
         else if c = CHR 0x0A then [CHR 0x5C, CHR ''n'']
         else if c = CHR 0x0D then [CHR 0x5C, CHR ''r'']
         else if n < 32 \<or> n = 127 \<or> (128 \<le> n \<and> n \<le> 160) \<or> n = 173
           then [CHR 0x5C, CHR ''x'', ''0123456789abcdef'' ! (n div 16),
                 ''0123456789abcdef'' ! (n mod 16)]
         else [c])"

definition repr_string :: "string \<Rightarrow> string" where
  "repr_string s =
     (let q = (if CHR 0x27 \<in> set s \<and> CHR 0x22 \<notin> set s then CHR 0x22 else CHR 0x27)
      in [q] @ concat (map (repr_char q) s) @ [q])"

fun join :: "string \<Rightarrow> string list \<Rightarrow> string" where
  "join sep [] = []"
| "join sep [x] = x"
| "join sep (x # y # rest) = x @ sep @ join sep (y # rest)"

definition repr_float :: "pyfloat \<Rightarrow> string" where
  "repr_float f =
     (case f of
        Decimal m e \<Rightarrow> show_int m @ ''e'' @ show_int e
      | PosInfinity \<Rightarrow> ''inf''
      | NegInfinity \<Rightarrow> ''-inf''
      | NaN \<Rightarrow> ''nan'')"

fun py_repr :: "pyval \<Rightarrow> string" where
  "py_repr PNone = ''None''"
| "py_repr (PBool b) = (if b then ''True'' else ''False'')"
| "py_repr (PInt i) = show_int i"
| "py_repr (PFloat f) = repr_float f"
| "py_repr (PStr s) = repr_string s"
| "py_repr (PList xs) = ''['' @ join '', '' (map py_repr xs) @ '']''"
| "py_repr (PDict kvs) =
     ''{'' @ join '', '' (map (\<lambda>kv. py_repr (fst kv) @ '': '' @ py_repr (snd kv)) kvs) @ ''}''"
| "py_repr (PObject cls r) = r"

definition py_str :: "pyval \<Rightarrow> string" where
  "py_str v = (case v of PStr s \<Rightarrow> s | _ \<Rightarrow> py_repr v)"

fun type_name :: "pyval \<Rightarrow> string" where
  "type_name PNone = ''NoneType''"
| "type_name (PBool b) = ''bool''"
| "type_name (PInt i) = ''int''"
| "type_name (PFloat f) = ''float''"
| "type_name (PStr s) = ''str''"
| "type_name (PList xs) = ''list''"
| "type_name (PDict kvs) = ''dict''"
| "type_name (PObject cls r) = cls"

definition quoted :: "string \<Rightarrow> string" where
  "quoted s = [CHR 0x27] @ s @ [CHR 0x27]"

section \<open>The names that the evaluated input can rebind\<close>

text \<open>
  \<open>eval\<close> runs the input in the frame of \<open>fit\<close>: the expression sees the instance,
  the class and the modules, and it can bind another object to a name that \<open>fit\<close> looks
  up after the evaluation. The model keeps three of those names: the function \<open>sub\<close> of
  the module \<open>re\<close>, and the attributes \<open>complete_json_object\<close> and
  \<open>find_max_length\<close> of the class. Each of them is bound to the function that the
  module or the class body defines under that name, or to that function wrapped in
  \<open>staticmethod\<close>, or to a value that cannot be called. Every other name that \<open>fit\<close>
  and the functions it calls look up keeps, in this model, the object of the module as it
  was loaded.
\<close>

datatype binding = Function | StaticMethod | Value pyval

record env =
  re_sub :: binding
  complete_json_object_attr :: binding
  find_max_length_attr :: binding

text \<open>The names as the module binds them when it is loaded.\<close>

definition module_env :: env where
  "module_env =
     \<lparr>re_sub = Function, complete_json_object_attr = Function,
      find_max_length_attr = Function\<rparr>"

definition not_callable :: "pyval \<Rightarrow> exc" where
  "not_callable v = Exc TypeError (quoted (type_name v) @ '' object is not callable'')"

text \<open>
  \<open>self.f(a, b)\<close>, where the attribute \<open>f\<close> of the class has the binding \<open>b\<close>: a
  function found through the instance is bound to it, and the call places the instance
  before the written arguments; a static method gives the function as it is; any other
  value is called as it is, which raises \<open>TypeError\<close>.
\<close>

definition call_attribute ::
  "binding \<Rightarrow> string \<Rightarrow> string list \<Rightarrow> (arg list \<Rightarrow> exc + 'a) \<Rightarrow> arg list \<Rightarrow> exc + 'a" where
  "call_attribute b qualname params body args =
     (case b of
        Function \<Rightarrow> call_method qualname params body args
      | StaticMethod \<Rightarrow> call_function qualname params body args
      | Value v \<Rightarrow> Inl (not_callable v))"

section \<open>The parser class\<close>

subsection \<open>\<open>is_valid_json\<close>\<close>

text \<open>
  \<open>json.loads\<close> is a parameter \<open>loads\<close>. A call of it returns the parsed value, or
  raises \<open>json.JSONDecodeError\<close>, or raises another exception (a \<open>RecursionError\<close>
  on a deeply nested text, a plain \<open>ValueError\<close> on an integer of too many digits). The
  message of a \<open>JSONDecodeError\<close> is not kept: the program catches the exception
  wherever it can be raised and never reads it. \<open>Raises e\<close> is for an exception
  \<open>e\<close> that is no \<open>JSONDecodeError\<close>.
\<close>

datatype 'a loaded = Loaded 'a | JSONDecodeError | Raises exc

text \<open>
  The handler of \<open>is_valid_json\<close> is \<open>except ValueError\<close>: it catches
  \<open>JSONDecodeError\<close>, which derives from \<open>ValueError\<close>, and \<open>ValueError\<close>
  itself; any other exception leaves the function.
\<close>

definition is_valid_json :: "(string \<Rightarrow> pyval loaded) \<Rightarrow> string \<Rightarrow> exc + bool" where
  "is_valid_json loads input_str =
     (case loads input_str of
        Loaded v \<Rightarrow> Inr True
      | JSONDecodeError \<Rightarrow> Inr False
      | Raises e \<Rightarrow> if exc_class_of e = ValueError then Inr False else Inl e)"

subsection \<open>\<open>get_combinations\<close>\<close>

text \<open>
  \<open>itertools.product(xs, repeat=i)\<close>: the tuples of length \<open>i\<close> over \<open>xs\<close>, the last
  position changing fastest.
\<close>

fun product_repeat :: "'a list \<Rightarrow> nat \<Rightarrow> 'a list list" where
  "product_repeat xs 0 = [[]]"
| "product_repeat xs (Suc i) = concat (map (\<lambda>x. map ((#) x) (product_repeat xs i)) xs)"

text \<open>
  The test of the inner loop: a tuple is skipped when an end mark is given and the last
  element of the tuple is another one.
\<close>

definition skipped :: "string option \<Rightarrow> string list \<Rightarrow> bool" where
  "skipped should_end_mark comb =
     (case should_end_mark of None \<Rightarrow> False | Some m \<Rightarrow> last comb \<noteq> m)"

definition get_combinations :: "string list \<Rightarrow> int \<Rightarrow> string option \<Rightarrow> string list" where
  "get_combinations candidate_marks n should_end_mark =
     concat (map (\<lambda>i. map concat
                         (filter (\<lambda>comb. \<not> skipped should_end_mark comb)
                                 (product_repeat candidate_marks (nat i))))
                 [1..n])"

subsection \<open>\<open>complete_json_object\<close>\<close>

text \<open>
  The loop of \<open>complete_json_object\<close>, with a counter of the calls of \<open>json.loads\<close>
  made so far: an empty text raises \<open>ValueError\<close>; otherwise the text followed by the
  completion is parsed; a \<open>JSONDecodeError\<close> is caught, the last character of the
  text is dropped and the loop goes round again; any other exception of \<open>json.loads\<close>
  leaves the function.
\<close>

function complete_json_object_loop ::
  "(string \<Rightarrow> pyval loaded) \<Rightarrow> nat \<Rightarrow> string \<Rightarrow> string \<Rightarrow> nat \<times> (exc + pyval)" where
  "complete_json_object_loop loads attempts json_str completion_str =
     (if json_str = [] then (attempts, Inl (Exc ValueError ''Couldn't fix JSON''))
      else case loads (json_str @ completion_str) of
             JSONDecodeError \<Rightarrow>
               complete_json_object_loop loads (Suc attempts) (butlast json_str) completion_str
           | Raises e \<Rightarrow> (Suc attempts, Inl e)
           | Loaded python_obj \<Rightarrow> (Suc attempts, Inr python_obj))"
  by pat_completeness auto
termination
  by (relation "measure (\<lambda>(loads, attempts, json_str, completion_str). length json_str)") auto

declare complete_json_object_loop.simps [simp del]

definition complete_json_object ::
  "(string \<Rightarrow> pyval loaded) \<Rightarrow> string \<Rightarrow> string \<Rightarrow> exc + pyval" where
  "complete_json_object loads json_str completion_str =
     snd (complete_json_object_loop loads 0 json_str completion_str)"

definition parse_attempts :: "(string \<Rightarrow> pyval loaded) \<Rightarrow> string \<Rightarrow> string \<Rightarrow> nat" where
  "parse_attempts loads json_str completion_str =
     fst (complete_json_object_loop loads 0 json_str completion_str)"

text \<open>
  The function as the class holds it: \<open>def complete_json_object(json_str, completion_str)\<close>
  has two parameters and no \<open>self\<close>. With two strings the body runs; the program never
  passes two arguments of other types, where the body would stop at \<open>json_str + completion_str\<close>.
\<close>

fun complete_json_object_def :: "(string \<Rightarrow> pyval loaded) \<Rightarrow> arg list \<Rightarrow> exc + pyval" where
  "complete_json_object_def loads [StrArg json_str, StrArg completion_str] =
     complete_json_object loads json_str completion_str"
| "complete_json_object_def loads args = Inl (Exc TypeError ''unsupported operand type(s)'')"

subsection \<open>\<open>find_max_length\<close>\<close>

text \<open>
  \<open>str\<close> is a parameter \<open>strf\<close>. \<open>max\<close> of no element raises \<open>ValueError\<close>;
  \<open>next\<close> takes the first element of the greatest length; \<open>sorted\<close> with
  \<open>reverse=True\<close> reverses the list, sorts it stably in ascending order and reverses the
  result, as CPython does.
\<close>

record 'a ranked =
  completion :: 'a
  suggestions :: "'a list"

definition find_max_length :: "('a \<Rightarrow> string) \<Rightarrow> 'a list \<Rightarrow> exc + 'a ranked" where
  "find_max_length strf data_list =
     (case data_list of
        [] \<Rightarrow> Inl (Exc ValueError ''max() arg is an empty sequence'')
      | first # others \<Rightarrow>
          (let max_length = fold max (map (\<lambda>element. length (strf element)) others)
                                 (length (strf first))
           in case find (\<lambda>element. length (strf element) = max_length) data_list of
                None \<Rightarrow> Inl (Exc StopIteration [])
              | Some element \<Rightarrow>
                  Inr \<lparr>completion = element,
                       suggestions =
                         rev (sort_key (\<lambda>element. length (strf element)) (rev data_list))\<rparr>))"

text \<open>
  The function as the class holds it: \<open>def find_max_length(data_list)\<close> has one
  parameter and no \<open>self\<close>.
\<close>

fun find_max_length_def :: "(pyval \<Rightarrow> string) \<Rightarrow> arg list \<Rightarrow> exc + pyval ranked" where
  "find_max_length_def strf [ListArg data_list] = find_max_length strf data_list"
| "find_max_length_def strf args = Inl (Exc TypeError ''object is not iterable'')"

subsection \<open>\<open>get_possible_completions\<close>\<close>

text \<open>
  Whitespace as \<open>str.strip\<close> and the class \<open>\s\<close> of \<open>re\<close> see it, among the code
  points below 256.
\<close>

definition is_space :: "char \<Rightarrow> bool" where
  "is_space c =
     (let n = (of_char c :: nat)
      in (9 \<le> n \<and> n \<le> 13) \<or> (28 \<le> n \<and> n \<le> 32) \<or> n = 133 \<or> n = 160)"

definition py_strip :: "string \<Rightarrow> string" where
  "py_strip s = dropWhile is_space (rev (dropWhile is_space (rev s)))"

definition candidate_marks_of :: "string \<Rightarrow> string list" where
  "candidate_marks_of json_str =
     (let candidate_marks = [''}'', '']''];
          candidate_marks = (if CHR ''['' \<notin> set json_str
                             then remove1 '']'' candidate_marks else candidate_marks);
          candidate_marks = (if CHR ''{'' \<notin> set json_str
                             then remove1 ''}'' candidate_marks else candidate_marks)
      in candidate_marks)"

text \<open>
  The loop over the completion strings: a completion that raises an \<open>Exception\<close> is
  passed over, any other exception leaves the loop. The two functions of the class are
  looked up through the instance, with the bindings they have when they are called.
\<close>

fun try_completions ::
  "(string \<Rightarrow> exc + pyval) \<Rightarrow> string list \<Rightarrow> pyval list \<Rightarrow> exc + pyval list" where
  "try_completions attempt [] completions = Inr completions"
| "try_completions attempt (completion_str # rest) completions =
     (case attempt completion_str of
        Inr completed_obj \<Rightarrow> try_completions attempt rest (completions @ [completed_obj])
      | Inl e \<Rightarrow> if is_Exception e then try_completions attempt rest completions else Inl e)"

definition get_possible_completions ::
  "env \<Rightarrow> (string \<Rightarrow> pyval loaded) \<Rightarrow> (pyval \<Rightarrow> string) \<Rightarrow> string \<Rightarrow> int
     \<Rightarrow> exc + pyval ranked" where
  "get_possible_completions env loads strf json_str max_completion_length =
     (let candidate_marks = candidate_marks_of json_str
      in case py_strip json_str of
           [] \<Rightarrow> Inl (Exc IndexError ''string index out of range'')
         | c # cs \<Rightarrow>
             (let should_end_mark = (if c = CHR ''['' then '']'' else ''}'')
              in case try_completions
                        (\<lambda>completion_str.
                           call_attribute (complete_json_object_attr env)
                             ''Parser.complete_json_object''
                             [''json_str'', ''completion_str'']
                             (complete_json_object_def loads)
                             [StrArg json_str, StrArg completion_str])
                        (get_combinations candidate_marks max_completion_length
                           (Some should_end_mark))
                        [] of
                   Inl e \<Rightarrow> Inl e
                 | Inr completions \<Rightarrow>
                     call_attribute (find_max_length_attr env)
                       ''Parser.find_max_length'' [''data_list'']
                       (find_max_length_def strf) [ListArg completions]))"

subsection \<open>\<open>fit\<close>\<close>

text \<open>
  The dictionary that \<open>fit\<close> returns: the status, the type of the evaluated object (or
  \<open>None\<close>), and the data, which has one of three shapes.
\<close>

datatype fit_data =
    Completion pyval "pyval list"
  | Suggestions "pyval ranked"
  | ErrorMessage string

record fit_result =
  status :: string
  object_type :: "pytype option"
  data :: fit_data

text \<open>
  \<open>re.sub(r'[\[\]\{\}\s]+$', '', json_str)\<close>: the longest run of brackets, braces and
  whitespace that ends the string is removed. The call looks \<open>sub\<close> up in the module
  \<open>re\<close>: a static method object is called like the function it wraps (Python 3.10 and
  later), a value that cannot be called raises \<open>TypeError\<close>.
\<close>

definition strip_trailing_brackets :: "string \<Rightarrow> string" where
  "strip_trailing_brackets json_str =
     rev (dropWhile (\<lambda>c. c \<in> set ''[]{}'' \<or> is_space c) (rev json_str))"

definition call_sub :: "binding \<Rightarrow> string \<Rightarrow> exc + string" where
  "call_sub b json_str =
     (case b of
        Value v \<Rightarrow> Inl (not_callable v)
      | _ \<Rightarrow> Inr (strip_trailing_brackets json_str))"

text \<open>
  \<open>eval\<close> is a parameter \<open>evalf\<close>: from the bindings before the evaluation and the
  input, the object it returns or the exception it raises, and the bindings after the
  evaluation. The result of \<open>fit\<close> is the dictionary it returns or the exception that
  leaves it, and the bindings it leaves behind. The call of \<open>re.sub\<close> stands in the outer
  handler and before the inner \<open>try\<close>: an exception it raises leaves \<open>fit\<close>.
\<close>

definition fit ::
  "(env \<Rightarrow> string \<Rightarrow> (exc + pyval) \<times> env) \<Rightarrow> (string \<Rightarrow> pyval loaded) \<Rightarrow> (pyval \<Rightarrow> string)
     \<Rightarrow> env \<Rightarrow> string \<Rightarrow> int \<Rightarrow> (exc + fit_result) \<times> env" where
  "fit evalf loads strf env json_str max_completion_length =
     (case evalf env json_str of
        (Inr output, env') \<Rightarrow>
          (Inr \<lparr>status = ''completed'', object_type = Some (py_type output),
                data = Completion output []\<rparr>,
           env')
      | (Inl e, env') \<Rightarrow>
          if \<not> is_Exception e then (Inl e, env')
          else
            (case call_sub (re_sub env') json_str of
               Inl e \<Rightarrow> (Inl e, env')
             | Inr json_str \<Rightarrow>
                 (case get_possible_completions env' loads strf json_str
                         max_completion_length of
                    Inr completions \<Rightarrow>
                      (Inr \<lparr>status = ''incomplete'', object_type = None,
                            data = Suggestions completions\<rparr>,
                       env')
                  | Inl e \<Rightarrow>
                      if is_Exception e
                      then (Inr \<lparr>status = ''failed'', object_type = None,
                                 data = ErrorMessage (exc_message e)\<rparr>,
                            env')
                      else (Inl e, env'))))"

section \<open>\<open>json.loads\<close>\<close>

text \<open>
  The decoder of the \<open>json\<close> module on a string, with its default settings: whitespace
  is blank, tab, line feed and carriage return; a value is an object, an array, a string,
  a number, \<open>true\<close>, \<open>false\<close>, \<open>null\<close>, \<open>NaN\<close>, \<open>Infinity\<close> or
  \<open>-Infinity\<close>; nothing but whitespace may follow the value. The decoder reads the
  text from left to right and raises at the first place that is wrong: \<open>JSONDecodeError\<close>
  where the text is no JSON, \<open>ValueError\<close> where an integer has more digits than
  \<open>int\<close> converts (4300, the default of \<open>sys.set_int_max_str_digits\<close> since
  Python 3.11 and in the security releases of the versions before it). The
  \<open>RecursionError\<close> of a text nested deeper than the interpreter allows depends on
  the depth of the call and is not part of this model, which reads every depth. An escape
  \<open>\uXXXX\<close> of a code point above 255 has no character in this model and is answered
  as an error of the text.
\<close>

definition is_digit :: "char \<Rightarrow> bool" where
  "is_digit c = (let n = (of_char c :: nat) in 48 \<le> n \<and> n \<le> 57)"

definition decimal_value :: "string \<Rightarrow> int" where
  "decimal_value ds = foldl (\<lambda>a c. 10 * a + (int (of_char c) - 48)) 0 ds"

definition hex_digit :: "char \<Rightarrow> nat option" where
  "hex_digit c =
     (let n = (of_char c :: nat)
      in if 48 \<le> n \<and> n \<le> 57 then Some (n - 48)
         else if 97 \<le> n \<and> n \<le> 102 then Some (n - 87)
         else if 65 \<le> n \<and> n \<le> 70 then Some (n - 55)
         else None)"

fun hex_value :: "string \<Rightarrow> nat option" where
  "hex_value [] = Some 0"
| "hex_value (c # cs) =
     (case (hex_digit c, hex_value cs) of
        (Some d, Some v) \<Rightarrow> Some (d * 16 ^ length cs + v)
      | _ \<Rightarrow> None)"

definition json_unescape :: "char \<Rightarrow> char option" where
  "json_unescape e =
     (if e = CHR 0x22 \<or> e = CHR 0x5C \<or> e = CHR ''/'' then Some e
      else if e = CHR ''b'' then Some (CHR 0x08)
      else if e = CHR ''f'' then Some (CHR 0x0C)
      else if e = CHR ''n'' then Some (CHR 0x0A)
      else if e = CHR ''r'' then Some (CHR 0x0D)
      else if e = CHR ''t'' then Some (CHR 0x09)
      else None)"

definition prepend :: "char \<Rightarrow> (string \<times> string) option \<Rightarrow> (string \<times> string) option" where
  "prepend c r = (case r of None \<Rightarrow> None | Some (s, rest) \<Rightarrow> Some (c # s, rest))"

text \<open>
  \<open>scanstring\<close>, from the character after the opening quote: the string read and the
  text after its closing quote. A control character in the string is an error.
\<close>

fun scanstring :: "string \<Rightarrow> (string \<times> string) option" where
  "scanstring [] = None"
| "scanstring (c # cs) =
     (if c = CHR 0x22 then Some ([], cs)
      else if c = CHR 0x5C then
        (case cs of
           [] \<Rightarrow> None
         | e # rest \<Rightarrow>
             if e = CHR ''u'' then
               (if length rest < 4 then None
                else case hex_value (take 4 rest) of
                       None \<Rightarrow> None
                     | Some code \<Rightarrow>
                         if code < 256 then prepend (char_of code) (scanstring (drop 4 rest))
                         else None)
             else (case json_unescape e of
                     None \<Rightarrow> None
                   | Some ch \<Rightarrow> prepend ch (scanstring rest)))
      else if (of_char c :: nat) < 32 then None
      else prepend c (scanstring cs))"

text \<open>
  The tokens. \<open>JExceeds n\<close> is an integer of \<open>n\<close> digits, more than \<open>int\<close>
  converts; \<open>JBad\<close> stands where the text has no token, and nothing is read after it.
\<close>

datatype jtoken =
    JLBrace | JRBrace | JLBracket | JRBracket | JComma | JColon
  | JString string | JValue pyval | JExceeds nat | JBad

definition max_str_digits :: int where
  "max_str_digits = 4300"

definition exceeds_limit :: "nat \<Rightarrow> exc" where
  "exceeds_limit digits =
     Exc ValueError
       (''Exceeds the limit ('' @ show_nat (nat max_str_digits)
        @ '' digits) for integer string conversion: value has '' @ show_nat digits
        @ '' digits; use sys.set_int_max_str_digits() to increase the limit'')"

text \<open>
  A number, by the pattern \<open>(-?(?:0|[1-9]\d*))(\.\d+)?([eE][-+]?\d+)?\<close>: an integer when
  it has no fraction and no exponent, a float otherwise. The digits of an integer are
  counted without the sign.
\<close>

definition json_integer_part :: "string \<Rightarrow> (string \<times> string) option" where
  "json_integer_part s =
     (case s of
        [] \<Rightarrow> None
      | c # cs \<Rightarrow>
          if c = CHR ''0'' then Some ([c], cs)
          else if is_digit c then Some (takeWhile is_digit s, dropWhile is_digit s)
          else None)"

definition json_fraction :: "string \<Rightarrow> string \<times> string" where
  "json_fraction s =
     (case s of
        c # d # cs \<Rightarrow>
          if c = CHR ''.'' \<and> is_digit d
          then (takeWhile is_digit (d # cs), dropWhile is_digit (d # cs))
          else ([], s)
      | _ \<Rightarrow> ([], s))"

definition json_exponent :: "string \<Rightarrow> (int option) \<times> string" where
  "json_exponent s =
     (case s of
        [] \<Rightarrow> (None, s)
      | e # cs \<Rightarrow>
          if e = CHR ''e'' \<or> e = CHR ''E'' then
            (let negative = (case cs of [] \<Rightarrow> False | g # cs' \<Rightarrow> g = CHR ''-'');
                 digits = (case cs of
                             [] \<Rightarrow> []
                           | g # cs' \<Rightarrow> if g = CHR ''-'' \<or> g = CHR ''+'' then cs' else cs)
             in case digits of
                  [] \<Rightarrow> (None, s)
                | d # ds \<Rightarrow>
                    if is_digit d
                    then (Some ((if negative then -1 else 1)
                                 * decimal_value (takeWhile is_digit digits)),
                          dropWhile is_digit digits)
                    else (None, s))
          else (None, s))"

definition json_number :: "string \<Rightarrow> (jtoken \<times> string) option" where
  "json_number s =
     (let negative = (case s of [] \<Rightarrow> False | c # cs \<Rightarrow> c = CHR ''-'');
          sign = (if negative then -1 else 1)
      in case json_integer_part (if negative then tl s else s) of
           None \<Rightarrow> None
         | Some (integer, rest) \<Rightarrow>
             (case json_fraction rest of
                (frac, rest') \<Rightarrow>
                  (case json_exponent rest' of
                     (ex, rest'') \<Rightarrow>
                       if frac = [] \<and> ex = None
                       then Some (if max_str_digits < int (length integer)
                                  then JExceeds (length integer)
                                  else JValue (PInt (sign * decimal_value integer)),
                                  rest'')
                       else Some (JValue
                                    (PFloat
                                       (Decimal (sign * decimal_value (integer @ frac))
                                          ((case ex of None \<Rightarrow> 0 | Some x \<Rightarrow> x)
                                             - int (length frac)))),
                                  rest''))))"

text \<open>
  The token that starts a text that starts with no whitespace, and the text after it, in
  the order in which the scanner of the module tries them.
\<close>

definition json_token :: "string \<Rightarrow> (jtoken \<times> string) option" where
  "json_token s =
     (case s of
        [] \<Rightarrow> None
      | c # cs \<Rightarrow>
          if c = CHR 0x22 then
            (case scanstring cs of None \<Rightarrow> None | Some (str, rest) \<Rightarrow> Some (JString str, rest))
          else if c = CHR ''{'' then Some (JLBrace, cs)
          else if c = CHR ''}'' then Some (JRBrace, cs)
          else if c = CHR ''['' then Some (JLBracket, cs)
          else if c = CHR '']'' then Some (JRBracket, cs)
          else if c = CHR '','' then Some (JComma, cs)
          else if c = CHR '':'' then Some (JColon, cs)
          else if take 4 s = ''null'' then Some (JValue PNone, drop 4 s)
          else if take 4 s = ''true'' then Some (JValue (PBool True), drop 4 s)
          else if take 5 s = ''false'' then Some (JValue (PBool False), drop 5 s)
          else (case json_number s of
                  Some (t, rest) \<Rightarrow> Some (t, rest)
                | None \<Rightarrow>
                    if take 3 s = ''NaN'' then Some (JValue (PFloat NaN), drop 3 s)
                    else if take 8 s = ''Infinity''
                      then Some (JValue (PFloat PosInfinity), drop 8 s)
                    else if take 9 s = ''-Infinity''
                      then Some (JValue (PFloat NegInfinity), drop 9 s)
                    else None))"

definition json_whitespace :: "char \<Rightarrow> bool" where
  "json_whitespace c = (c = CHR '' '' \<or> c = CHR 0x09 \<or> c = CHR 0x0A \<or> c = CHR 0x0D)"

text \<open>
  The tokens of a text, from left to right, up to the first place that has no token. The
  first argument counts the characters that belong to the token read last and are still to
  be passed.
\<close>

fun json_tokens :: "nat \<Rightarrow> string \<Rightarrow> jtoken list" where
  "json_tokens k [] = []"
| "json_tokens (Suc k) (c # cs) = json_tokens k cs"
| "json_tokens 0 (c # cs) =
     (if json_whitespace c then json_tokens 0 cs
      else case json_token (c # cs) of
             None \<Rightarrow> [JBad]
           | Some (t, rest) \<Rightarrow> t # json_tokens (length cs - length rest) cs)"

text \<open>
  A key that is set again keeps its place and takes the new value, as in a \<open>dict\<close>. Keys
  are equal as Python compares them: \<open>True\<close> equals \<open>1\<close> and \<open>False\<close> equals \<open>0\<close>.
\<close>

fun key_number :: "pyval \<Rightarrow> int option" where
  "key_number (PInt i) = Some i"
| "key_number (PBool b) = Some (if b then 1 else 0)"
| "key_number v = None"

definition key_eq :: "pyval \<Rightarrow> pyval \<Rightarrow> bool" where
  "key_eq a b =
     (case (key_number a, key_number b) of
        (Some i, Some j) \<Rightarrow> i = j
      | (None, None) \<Rightarrow> a = b
      | _ \<Rightarrow> False)"

fun dict_set :: "(pyval \<times> pyval) list \<Rightarrow> pyval \<Rightarrow> pyval \<Rightarrow> (pyval \<times> pyval) list" where
  "dict_set [] k v = [(k, v)]"
| "dict_set ((k', v') # kvs) k v =
     (if key_eq k' k then (k', v) # kvs else (k', v') # dict_set kvs k v)"

text \<open>
  The grammar of values over the tokens, read from left to right: a token that cannot stand
  where it stands is a \<open>JSONDecodeError\<close>, and an integer of too many digits raises
  \<open>ValueError\<close> where a value is read. The first argument bounds the number of calls
  that are open at once; \<open>json_loads\<close> gives two for each token, and each call takes a
  token before it opens more than two others.
\<close>

fun json_value :: "nat \<Rightarrow> jtoken list \<Rightarrow> (pyval \<times> jtoken list) loaded"
  and json_elements :: "nat \<Rightarrow> pyval list \<Rightarrow> jtoken list \<Rightarrow> (pyval \<times> jtoken list) loaded"
  and json_members ::
    "nat \<Rightarrow> (pyval \<times> pyval) list \<Rightarrow> jtoken list \<Rightarrow> (pyval \<times> jtoken list) loaded" where
  "json_value 0 ts = JSONDecodeError"
| "json_value (Suc n) ts =
     (case ts of
        JString s # rest \<Rightarrow> Loaded (PStr s, rest)
      | JValue v # rest \<Rightarrow> Loaded (v, rest)
      | JExceeds digits # rest \<Rightarrow> Raises (exceeds_limit digits)
      | JLBracket # JRBracket # rest \<Rightarrow> Loaded (PList [], rest)
      | JLBracket # rest \<Rightarrow> json_elements n [] rest
      | JLBrace # JRBrace # rest \<Rightarrow> Loaded (PDict [], rest)
      | JLBrace # rest \<Rightarrow> json_members n [] rest
      | _ \<Rightarrow> JSONDecodeError)"
| "json_elements 0 values ts = JSONDecodeError"
| "json_elements (Suc n) values ts =
     (case json_value n ts of
        Loaded (v, JComma # rest) \<Rightarrow> json_elements n (values @ [v]) rest
      | Loaded (v, JRBracket # rest) \<Rightarrow> Loaded (PList (values @ [v]), rest)
      | Raises e \<Rightarrow> Raises e
      | _ \<Rightarrow> JSONDecodeError)"
| "json_members 0 pairs ts = JSONDecodeError"
| "json_members (Suc n) pairs ts =
     (case ts of
        JString key # JColon # rest \<Rightarrow>
          (case json_value n rest of
             Loaded (v, JComma # rest') \<Rightarrow> json_members n (dict_set pairs (PStr key) v) rest'
           | Loaded (v, JRBrace # rest') \<Rightarrow>
               Loaded (PDict (dict_set pairs (PStr key) v), rest')
           | Raises e \<Rightarrow> Raises e
           | _ \<Rightarrow> JSONDecodeError)
      | _ \<Rightarrow> JSONDecodeError)"

definition json_loads :: "string \<Rightarrow> pyval loaded" where
  "json_loads s =
     (let ts = json_tokens 0 s
      in case json_value (2 * length ts + 2) ts of
           Loaded (v, []) \<Rightarrow> Loaded v
         | Raises e \<Rightarrow> Raises e
         | _ \<Rightarrow> JSONDecodeError)"

section \<open>\<open>eval\<close> and \<open>ast.literal_eval\<close> on a fragment of expressions\<close>

text \<open>
  The expressions of this fragment, written with blanks and tabs between the tokens:
  \<^item> decimal integers; strings in single or double quotes, with the escapes of one
    letter, \<open>\xhh\<close>, \<open>\uhhhh\<close> and octal escapes below 256; strings side by side;
  \<^item> \<open>True\<close>, \<open>False\<close>, \<open>None\<close>; the names \<open>exit\<close>, \<open>quit\<close>,
    \<open>setattr\<close>, \<open>staticmethod\<close>, \<open>re\<close> and \<open>Parser\<close>; any name that the
    scope of \<open>fit\<close>, the module and the builtins do not bind;
  \<^item> the attributes \<open>re.sub\<close>, \<open>Parser.complete_json_object\<close> and
    \<open>Parser.find_max_length\<close>;
  \<^item> list displays and dictionary displays; an expression in parentheses;
  \<^item> unary and binary \<open>+\<close> and \<open>-\<close>; calls with positional arguments: of
    \<open>exit\<close> and \<open>quit\<close>, of a value that cannot be called, of \<open>staticmethod\<close>
    on one of the three functions, and of \<open>setattr\<close> on one of the three attributes
    with one of the three bindings of the model.

  On a string of the fragment the functions below answer as Python does, up to the text
  of a \<open>SyntaxError\<close> and of the \<open>ValueError\<close> of \<open>ast.literal_eval\<close>, which
  depend on the version. A string that is no expression at all is a \<open>SyntaxError\<close>,
  here too. Python has more expressions than the fragment (floats, tuples, sets,
  comparisons, the other attributes, calls, operators and names): the functions answer to
  those as to a syntax error, and no statement below evaluates one.
\<close>

datatype ptoken = TokInt int | TokStr string | TokName string | TokOp char

definition prepend_all :: "string \<Rightarrow> (string \<times> string) option \<Rightarrow> (string \<times> string) option" where
  "prepend_all cs r = (case r of None \<Rightarrow> None | Some (s, rest) \<Rightarrow> Some (cs @ s, rest))"

definition is_octal :: "char \<Rightarrow> bool" where
  "is_octal c = (let n = (of_char c :: nat) in 48 \<le> n \<and> n \<le> 55)"

definition octal_value :: "string \<Rightarrow> nat" where
  "octal_value ds = foldl (\<lambda>a c. 8 * a + (of_char c - 48)) 0 ds"

text \<open>
  An escape, from the character after the backslash: the characters it stands for and
  how many characters it takes after its first. A backslash before any other character
  stays in the string.
\<close>

definition py_escape :: "char \<Rightarrow> string \<Rightarrow> (string \<times> nat) option" where
  "py_escape e rest =
     (if e = CHR 0x5C \<or> e = CHR 0x27 \<or> e = CHR 0x22 then Some ([e], 0)
      else if e = CHR ''a'' then Some ([CHR 0x07], 0)
      else if e = CHR ''b'' then Some ([CHR 0x08], 0)
      else if e = CHR ''f'' then Some ([CHR 0x0C], 0)
      else if e = CHR ''n'' then Some ([CHR 0x0A], 0)
      else if e = CHR ''r'' then Some ([CHR 0x0D], 0)
      else if e = CHR ''t'' then Some ([CHR 0x09], 0)
      else if e = CHR ''v'' then Some ([CHR 0x0B], 0)
      else if e = CHR ''x'' then
        (if length rest < 2 then None
         else case hex_value (take 2 rest) of
                None \<Rightarrow> None
              | Some code \<Rightarrow> Some ([char_of code], 2))
      else if e = CHR ''u'' then
        (if length rest < 4 then None
         else case hex_value (take 4 rest) of
                None \<Rightarrow> None
              | Some code \<Rightarrow> if code < 256 then Some ([char_of code], 4) else None)
      else if is_octal e then
        (let ds = e # takeWhile is_octal (take 2 rest)
         in if octal_value ds < 256 then Some ([char_of (octal_value ds)], length ds - 1)
            else None)
      else if e = CHR ''U'' \<or> e = CHR ''N'' \<or> e = CHR 0x0A then None
      else Some ([CHR 0x5C, e], 0))"

text \<open>
  A string literal, from the character after the opening quote \<open>q\<close>: the string and
  the text after the closing quote. The line may not end inside the literal.
\<close>

fun py_scanstring :: "char \<Rightarrow> string \<Rightarrow> (string \<times> string) option" where
  "py_scanstring q [] = None"
| "py_scanstring q (c # cs) =
     (if c = q then Some ([], cs)
      else if c = CHR 0x0A \<or> c = CHR 0x0D then None
      else if c = CHR 0x5C then
        (case cs of
           [] \<Rightarrow> None
         | e # rest \<Rightarrow>
             (case py_escape e rest of
                None \<Rightarrow> None
              | Some (chars, n) \<Rightarrow> prepend_all chars (py_scanstring q (drop n rest))))
      else prepend_all [c] (py_scanstring q cs))"

definition is_name_start :: "char \<Rightarrow> bool" where
  "is_name_start c =
     (let n = (of_char c :: nat)
      in (65 \<le> n \<and> n \<le> 90) \<or> (97 \<le> n \<and> n \<le> 122) \<or> c = CHR ''_'')"

definition is_name_char :: "char \<Rightarrow> bool" where
  "is_name_char c = (is_name_start c \<or> is_digit c)"

definition starts_with :: "('a \<Rightarrow> bool) \<Rightarrow> 'a list \<Rightarrow> bool" where
  "starts_with P s = (case s of [] \<Rightarrow> False | c # cs \<Rightarrow> P c)"

text \<open>
  The token that starts a text that starts with no blank, and the text after it. An
  integer may not run into a name or a point, may not start with a zero unless it is
  zero, and may not have more digits than \<open>int\<close> converts; a name may not run into a
  quote; a point may not run into a digit or a point.
\<close>

definition py_token :: "string \<Rightarrow> (ptoken \<times> string) option" where
  "py_token s =
     (case s of
        [] \<Rightarrow> None
      | c # cs \<Rightarrow>
          if is_digit c then
            (let ds = takeWhile is_digit s; rest = dropWhile is_digit s
             in if starts_with (\<lambda>x. is_name_char x \<or> x = CHR ''.'') rest then None
                else if c = CHR ''0'' \<and> decimal_value ds \<noteq> 0 then None
                else if max_str_digits < int (length ds) then None
                else Some (TokInt (decimal_value ds), rest))
          else if is_name_start c then
            (let rest = dropWhile is_name_char s
             in if starts_with (\<lambda>x. x = CHR 0x27 \<or> x = CHR 0x22) rest then None
                else Some (TokName (takeWhile is_name_char s), rest))
          else if c = CHR 0x27 \<or> c = CHR 0x22 then
            (if take 2 cs = [c, c] then None
             else case py_scanstring c cs of
                    None \<Rightarrow> None
                  | Some (str, rest) \<Rightarrow> Some (TokStr str, rest))
          else if c \<in> set ''+-()[]{},:'' then Some (TokOp c, cs)
          else if c = CHR ''.'' then
            (if starts_with (\<lambda>x. is_digit x \<or> x = CHR ''.'') cs then None
             else Some (TokOp c, cs))
          else None)"

fun py_tokens :: "nat \<Rightarrow> string \<Rightarrow> ptoken list option" where
  "py_tokens k [] = Some []"
| "py_tokens (Suc k) (c # cs) = py_tokens k cs"
| "py_tokens 0 (c # cs) =
     (if c = CHR '' '' \<or> c = CHR 0x09 then py_tokens 0 cs
      else case py_token (c # cs) of
             None \<Rightarrow> None
           | Some (t, rest) \<Rightarrow>
               (case py_tokens (length cs - length rest) cs of
                  None \<Rightarrow> None
                | Some ts \<Rightarrow> Some (t # ts)))"

subsection \<open>The syntax tree\<close>

datatype expr =
    Constant pyval
  | Name string
  | ListDisplay "expr list"
  | DictDisplay "(expr \<times> expr) list"
  | UnaryOp char expr
  | BinOp expr char expr
  | Attribute expr string
  | Call expr "expr list"

definition py_keywords :: "string list" where
  "py_keywords =
     [''and'', ''as'', ''assert'', ''async'', ''await'', ''break'', ''class'', ''continue'',
      ''def'', ''del'', ''elif'', ''else'', ''except'', ''finally'', ''for'', ''from'',
      ''global'', ''if'', ''import'', ''in'', ''is'', ''lambda'', ''nonlocal'', ''not'',
      ''or'', ''pass'', ''raise'', ''return'', ''try'', ''while'', ''with'', ''yield'']"

fun take_strings :: "ptoken list \<Rightarrow> string \<times> ptoken list" where
  "take_strings (TokStr s # rest) = (case take_strings rest of (t, rest') \<Rightarrow> (s @ t, rest'))"
| "take_strings ts = ([], ts)"

text \<open>
  The grammar, by recursive descent over the tokens:
  \<^item> an expression is a unary expression followed by any number of \<open>+\<close> or \<open>-\<close> and
    a unary expression, grouped from the left;
  \<^item> a unary expression is a sign before a unary expression, or a postfix expression;
  \<^item> a postfix expression is an atom followed by any number of argument lists and of
    attributes (a point and a name that is no keyword);
  \<^item> an atom is an integer, strings side by side, a constant, a name that is no keyword,
    an expression in parentheses, a list display or a dictionary display;
  \<^item> the items of a list display or of an argument list, and the pairs of a dictionary
    display, are separated by commas, and a comma may follow the last.

  One function parses all of them: its second argument says what is to be parsed and holds
  what was parsed before it. Its first argument bounds the number of calls that are open at
  once; \<open>py_parse\<close> gives five for each token, and a call takes a token before it opens
  more than five others.
\<close>

datatype goal =
    Expression
  | Rest expr
  | Unary
  | Postfix
  | Trailers expr
  | Atom
  | Items char "expr list"
  | KeyValues "(expr \<times> expr) list"

datatype parsed = One expr | Many "expr list" | Pairs "(expr \<times> expr) list"

primrec parse :: "nat \<Rightarrow> goal \<Rightarrow> ptoken list \<Rightarrow> (parsed \<times> ptoken list) option" where
  "parse 0 g ts = None"
| "parse (Suc n) g ts =
     (case g of
        Expression \<Rightarrow>
          (case parse n Unary ts of
             Some (One e, rest) \<Rightarrow> parse n (Rest e) rest
           | _ \<Rightarrow> None)
      | Rest left \<Rightarrow>
          (case ts of
             TokOp c # rest \<Rightarrow>
               if c = CHR ''+'' \<or> c = CHR ''-'' then
                 (case parse n Unary rest of
                    Some (One right, rest') \<Rightarrow> parse n (Rest (BinOp left c right)) rest'
                  | _ \<Rightarrow> None)
               else Some (One left, ts)
           | _ \<Rightarrow> Some (One left, ts))
      | Unary \<Rightarrow>
          (case ts of
             TokOp c # rest \<Rightarrow>
               if c = CHR ''+'' \<or> c = CHR ''-'' then
                 (case parse n Unary rest of
                    Some (One e, rest') \<Rightarrow> Some (One (UnaryOp c e), rest')
                  | _ \<Rightarrow> None)
               else parse n Postfix ts
           | _ \<Rightarrow> parse n Postfix ts)
      | Postfix \<Rightarrow>
          (case parse n Atom ts of
             Some (One e, rest) \<Rightarrow> parse n (Trailers e) rest
           | _ \<Rightarrow> None)
      | Trailers e \<Rightarrow>
          (case ts of
             TokOp c # rest \<Rightarrow>
               if c = CHR ''('' then
                 (case parse n (Items (CHR '')'') []) rest of
                    Some (Many args, rest') \<Rightarrow> parse n (Trailers (Call e args)) rest'
                  | _ \<Rightarrow> None)
               else if c = CHR ''.'' then
                 (case rest of
                    TokName x # rest' \<Rightarrow>
                      if x \<in> set py_keywords \<or> x \<in> set [''True'', ''False'', ''None'']
                      then None
                      else parse n (Trailers (Attribute e x)) rest'
                  | _ \<Rightarrow> None)
               else Some (One e, ts)
           | _ \<Rightarrow> Some (One e, ts))
      | Atom \<Rightarrow>
          (case ts of
             [] \<Rightarrow> None
           | TokInt i # rest \<Rightarrow> Some (One (Constant (PInt i)), rest)
           | TokStr s # rest \<Rightarrow>
               (case take_strings ts of (str, rest') \<Rightarrow> Some (One (Constant (PStr str)), rest'))
           | TokName x # rest \<Rightarrow>
               if x = ''True'' then Some (One (Constant (PBool True)), rest)
               else if x = ''False'' then Some (One (Constant (PBool False)), rest)
               else if x = ''None'' then Some (One (Constant PNone), rest)
               else if x \<in> set py_keywords then None
               else Some (One (Name x), rest)
           | TokOp c # rest \<Rightarrow>
               if c = CHR ''('' then
                 (case parse n Expression rest of
                    Some (One e, TokOp d # rest') \<Rightarrow>
                      if d = CHR '')'' then Some (One e, rest') else None
                  | _ \<Rightarrow> None)
               else if c = CHR ''['' then
                 (case parse n (Items (CHR '']'') []) rest of
                    Some (Many es, rest') \<Rightarrow> Some (One (ListDisplay es), rest')
                  | _ \<Rightarrow> None)
               else if c = CHR ''{'' then
                 (case parse n (KeyValues []) rest of
                    Some (Pairs kvs, rest') \<Rightarrow> Some (One (DictDisplay kvs), rest')
                  | _ \<Rightarrow> None)
               else None)
      | Items closer es \<Rightarrow>
          if starts_with (\<lambda>t. t = TokOp closer) ts then Some (Many es, tl ts)
          else (case parse n Expression ts of
                  Some (One e, TokOp c # rest) \<Rightarrow>
                    if c = CHR '','' then parse n (Items closer (es @ [e])) rest
                    else if c = closer then Some (Many (es @ [e]), rest)
                    else None
                | _ \<Rightarrow> None)
      | KeyValues kvs \<Rightarrow>
          if starts_with (\<lambda>t. t = TokOp (CHR ''}'')) ts then Some (Pairs kvs, tl ts)
          else (case parse n Expression ts of
                  Some (One k, TokOp colon # rest) \<Rightarrow>
                    if colon = CHR '':'' then
                      (case parse n Expression rest of
                         Some (One v, TokOp c # rest') \<Rightarrow>
                           if c = CHR '','' then parse n (KeyValues (kvs @ [(k, v)])) rest'
                           else if c = CHR ''}'' then Some (Pairs (kvs @ [(k, v)]), rest')
                           else None
                       | _ \<Rightarrow> None)
                    else None
                | _ \<Rightarrow> None))"

definition py_parse :: "string \<Rightarrow> expr option" where
  "py_parse s =
     (case py_tokens 0 s of
        None \<Rightarrow> None
      | Some ts \<Rightarrow>
          (case parse (5 * length ts + 5) Expression ts of
             Some (One e, []) \<Rightarrow> Some e
           | _ \<Rightarrow> None))"

subsection \<open>Evaluation\<close>

definition hashable :: "pyval \<Rightarrow> bool" where
  "hashable v = (case v of PList xs \<Rightarrow> False | PDict kvs \<Rightarrow> False | _ \<Rightarrow> True)"

definition unhashable :: "pyval \<Rightarrow> exc" where
  "unhashable v = Exc TypeError (''unhashable type: '' @ quoted (type_name v))"

fun build_dict :: "(pyval \<times> pyval) list \<Rightarrow> (pyval \<times> pyval) list \<Rightarrow> exc + pyval" where
  "build_dict d [] = Inr (PDict d)"
| "build_dict d ((k, v) # rest) =
     (if hashable k then build_dict (dict_set d k v) rest else Inl (unhashable k))"

definition unary_op :: "char \<Rightarrow> pyval \<Rightarrow> exc + pyval" where
  "unary_op c v =
     (case key_number v of
        Some i \<Rightarrow> Inr (PInt (if c = CHR ''-'' then - i else i))
      | None \<Rightarrow>
          Inl (Exc TypeError (''bad operand type for unary '' @ [c] @ '': ''
                               @ quoted (type_name v))))"

definition unsupported_operands :: "char \<Rightarrow> pyval \<Rightarrow> pyval \<Rightarrow> exc" where
  "unsupported_operands c a b =
     Exc TypeError (''unsupported operand type(s) for '' @ [c] @ '': ''
                    @ quoted (type_name a) @ '' and '' @ quoted (type_name b))"

definition only_concatenate :: "pyval \<Rightarrow> pyval \<Rightarrow> exc" where
  "only_concatenate a b =
     Exc TypeError (''can only concatenate '' @ type_name a @ '' (not ''
                    @ [CHR 0x22] @ type_name b @ [CHR 0x22] @ '') to '' @ type_name a)"

definition binary_op :: "char \<Rightarrow> pyval \<Rightarrow> pyval \<Rightarrow> exc + pyval" where
  "binary_op c a b =
     (case (key_number a, key_number b) of
        (Some i, Some j) \<Rightarrow> Inr (PInt (if c = CHR ''-'' then i - j else i + j))
      | _ \<Rightarrow>
          if c = CHR ''-'' then Inl (unsupported_operands c a b)
          else (case a of
                  PStr s \<Rightarrow>
                    (case b of PStr t \<Rightarrow> Inr (PStr (s @ t)) | _ \<Rightarrow> Inl (only_concatenate a b))
                | PList xs \<Rightarrow>
                    (case b of PList ys \<Rightarrow> Inr (PList (xs @ ys)) | _ \<Rightarrow> Inl (only_concatenate a b))
                | _ \<Rightarrow> Inl (unsupported_operands c a b)))"

text \<open>
  The objects behind the names. \<open>exit\<close> and \<open>quit\<close> are the objects that the
  \<open>site\<close> module puts among the builtins; called with at most one argument they raise
  \<open>SystemExit\<close>. \<open>re\<close> is the module, \<open>Parser\<close> the class, \<open>setattr\<close> and
  \<open>staticmethod\<close> the builtins. A function is known by its qualified name, and so is
  the static method object that wraps it.
\<close>

definition re_module :: pyval where
  "re_module = PObject ''module'' ''<module 're'>''"

definition Parser_class :: pyval where
  "Parser_class = PObject ''type'' ''<class 'promptify.parser.parser.Parser'>''"

definition setattr_builtin :: pyval where
  "setattr_builtin = PObject ''builtin_function_or_method'' ''<built-in function setattr>''"

definition staticmethod_type :: pyval where
  "staticmethod_type = PObject ''type'' ''<class 'staticmethod'>''"

definition function_object :: "string \<Rightarrow> pyval" where
  "function_object qualname = PObject ''function'' (''<function '' @ qualname @ ''>'')"

definition staticmethod_object :: "string \<Rightarrow> pyval" where
  "staticmethod_object qualname =
     PObject ''staticmethod'' (''<staticmethod(<function '' @ qualname @ ''>)>'')"

definition lookup_name :: "string \<Rightarrow> exc + pyval" where
  "lookup_name x =
     (if x = ''exit'' \<or> x = ''quit''
      then Inr (PObject ''Quitter'' (''Use '' @ x @ ''() or Ctrl-D (i.e. EOF) to exit''))
      else if x = ''re'' then Inr re_module
      else if x = ''Parser'' then Inr Parser_class
      else if x = ''setattr'' then Inr setattr_builtin
      else if x = ''staticmethod'' then Inr staticmethod_type
      else Inl (Exc NameError (''name '' @ quoted x @ '' is not defined'')))"

text \<open>What the functions answer outside the fragment.\<close>

definition outside_fragment :: exc where
  "outside_fragment = Exc SyntaxError ''invalid syntax''"

text \<open>
  The object that a binding gives: an attribute of a module is the object as it was stored;
  an attribute found through the class is the function itself where a static method
  object was stored.
\<close>

definition module_attribute :: "string \<Rightarrow> binding \<Rightarrow> pyval" where
  "module_attribute qualname b =
     (case b of
        Function \<Rightarrow> function_object qualname
      | StaticMethod \<Rightarrow> staticmethod_object qualname
      | Value v \<Rightarrow> v)"

definition class_attribute :: "string \<Rightarrow> binding \<Rightarrow> pyval" where
  "class_attribute qualname b =
     (case b of
        Function \<Rightarrow> function_object qualname
      | StaticMethod \<Rightarrow> function_object qualname
      | Value v \<Rightarrow> v)"

definition get_attribute :: "env \<Rightarrow> pyval \<Rightarrow> string \<Rightarrow> exc + pyval" where
  "get_attribute env obj name =
     (if obj = re_module \<and> name = ''sub''
        then Inr (module_attribute ''sub'' (re_sub env))
      else if obj = Parser_class \<and> name = ''complete_json_object''
        then Inr (class_attribute ''Parser.complete_json_object''
                    (complete_json_object_attr env))
      else if obj = Parser_class \<and> name = ''find_max_length''
        then Inr (class_attribute ''Parser.find_max_length'' (find_max_length_attr env))
      else Inl outside_fragment)"

text \<open>
  The binding that storing a value makes: the function of that name, the static method
  object that wraps it, or a value of the fragment that is no object of a class, which
  cannot be called. Storing another object is outside the fragment.
\<close>

definition to_binding :: "string \<Rightarrow> pyval \<Rightarrow> binding option" where
  "to_binding qualname v =
     (if v = function_object qualname then Some Function
      else if v = staticmethod_object qualname then Some StaticMethod
      else case v of PObject cls r \<Rightarrow> None | _ \<Rightarrow> Some (Value v))"

definition set_attribute :: "env \<Rightarrow> pyval \<Rightarrow> string \<Rightarrow> pyval \<Rightarrow> (exc + pyval) \<times> env" where
  "set_attribute env obj name v =
     (if obj = re_module \<and> name = ''sub'' then
        (case to_binding ''sub'' v of
           Some b \<Rightarrow> (Inr PNone, env\<lparr>re_sub := b\<rparr>)
         | None \<Rightarrow> (Inl outside_fragment, env))
      else if obj = Parser_class \<and> name = ''complete_json_object'' then
        (case to_binding ''Parser.complete_json_object'' v of
           Some b \<Rightarrow> (Inr PNone, env\<lparr>complete_json_object_attr := b\<rparr>)
         | None \<Rightarrow> (Inl outside_fragment, env))
      else if obj = Parser_class \<and> name = ''find_max_length'' then
        (case to_binding ''Parser.find_max_length'' v of
           Some b \<Rightarrow> (Inr PNone, env\<lparr>find_max_length_attr := b\<rparr>)
         | None \<Rightarrow> (Inl outside_fragment, env))
      else (Inl outside_fragment, env))"

definition call_staticmethod :: "pyval list \<Rightarrow> exc + pyval" where
  "call_staticmethod args =
     (case args of
        [v] \<Rightarrow>
          (case find (\<lambda>qualname. v = function_object qualname)
                  [''sub'', ''Parser.complete_json_object'', ''Parser.find_max_length''] of
             Some qualname \<Rightarrow> Inr (staticmethod_object qualname)
           | None \<Rightarrow> Inl outside_fragment)
      | _ \<Rightarrow>
          Inl (Exc TypeError
                (''staticmethod expected 1 argument, got '' @ show_nat (length args))))"

definition call_setattr :: "env \<Rightarrow> pyval list \<Rightarrow> (exc + pyval) \<times> env" where
  "call_setattr env args =
     (case args of
        [obj, name, v] \<Rightarrow>
          (case name of
             PStr x \<Rightarrow> set_attribute env obj x v
           | _ \<Rightarrow>
               (Inl (Exc TypeError
                      (''attribute name must be string, not '' @ quoted (type_name name))),
                env))
      | _ \<Rightarrow>
          (Inl (Exc TypeError
                 (''setattr expected 3 arguments, got '' @ show_nat (length args))),
           env))"

text \<open>
  A call: the object returned or the exception raised, and the bindings after the call.
  The module \<open>re\<close> and the values that are no objects of a class cannot be called; the
  calls of the class, of a function and of a static method object are outside the
  fragment.
\<close>

definition call_value :: "env \<Rightarrow> pyval \<Rightarrow> pyval list \<Rightarrow> (exc + pyval) \<times> env" where
  "call_value env f args =
     (if py_type f = TClass ''Quitter'' then
        (case args of
           [] \<Rightarrow> (Inl (Exc SystemExit ''None''), env)
         | [code] \<Rightarrow> (Inl (Exc SystemExit (py_str code)), env)
         | _ \<Rightarrow>
             (Inl (Exc TypeError
                    (''Quitter.__call__() takes from 1 to 2 positional arguments but ''
                     @ show_nat (Suc (length args)) @ '' were given'')),
              env))
      else if f = setattr_builtin then call_setattr env args
      else if f = staticmethod_type then (call_staticmethod args, env)
      else if f = re_module then (Inl (not_callable f), env)
      else case f of
             PObject cls r \<Rightarrow> (Inl outside_fragment, env)
           | _ \<Rightarrow> (Inl (not_callable f), env))"

text \<open>
  Evaluation goes from left to right and hands the bindings on; a dictionary display
  evaluates every key and value, each key before its value, and then builds the
  dictionary. Where an exception is raised, the bindings made before it stay.
\<close>

function eval_expr :: "env \<Rightarrow> expr \<Rightarrow> (exc + pyval) \<times> env"
  and eval_list :: "env \<Rightarrow> expr list \<Rightarrow> (exc + pyval list) \<times> env"
  and eval_pairs :: "env \<Rightarrow> (expr \<times> expr) list \<Rightarrow> (exc + (pyval \<times> pyval) list) \<times> env" where
  "eval_expr env (Constant v) = (Inr v, env)"
| "eval_expr env (Name x) = (lookup_name x, env)"
| "eval_expr env (ListDisplay es) =
     (case eval_list env es of
        (Inl e, env1) \<Rightarrow> (Inl e, env1)
      | (Inr vs, env1) \<Rightarrow> (Inr (PList vs), env1))"
| "eval_expr env (DictDisplay kvs) =
     (case eval_pairs env kvs of
        (Inl e, env1) \<Rightarrow> (Inl e, env1)
      | (Inr pairs, env1) \<Rightarrow> (build_dict [] pairs, env1))"
| "eval_expr env (UnaryOp c operand) =
     (case eval_expr env operand of
        (Inl e, env1) \<Rightarrow> (Inl e, env1)
      | (Inr v, env1) \<Rightarrow> (unary_op c v, env1))"
| "eval_expr env (BinOp left c right) =
     (case eval_expr env left of
        (Inl e, env1) \<Rightarrow> (Inl e, env1)
      | (Inr a, env1) \<Rightarrow>
          (case eval_expr env1 right of
             (Inl e, env2) \<Rightarrow> (Inl e, env2)
           | (Inr b, env2) \<Rightarrow> (binary_op c a b, env2)))"
| "eval_expr env (Attribute object name) =
     (case eval_expr env object of
        (Inl e, env1) \<Rightarrow> (Inl e, env1)
      | (Inr v, env1) \<Rightarrow> (get_attribute env1 v name, env1))"
| "eval_expr env (Call func args) =
     (case eval_expr env func of
        (Inl e, env1) \<Rightarrow> (Inl e, env1)
      | (Inr f, env1) \<Rightarrow>
          (case eval_list env1 args of
             (Inl e, env2) \<Rightarrow> (Inl e, env2)
           | (Inr vs, env2) \<Rightarrow> call_value env2 f vs))"
| "eval_list env [] = (Inr [], env)"
| "eval_list env (x # xs) =
     (case eval_expr env x of
        (Inl e, env1) \<Rightarrow> (Inl e, env1)
      | (Inr v, env1) \<Rightarrow>
          (case eval_list env1 xs of
             (Inl e, env2) \<Rightarrow> (Inl e, env2)
           | (Inr vs, env2) \<Rightarrow> (Inr (v # vs), env2)))"
| "eval_pairs env [] = (Inr [], env)"
| "eval_pairs env ((k, v) # rest) =
     (case eval_expr env k of
        (Inl e, env1) \<Rightarrow> (Inl e, env1)
      | (Inr key, env1) \<Rightarrow>
          (case eval_expr env1 v of
             (Inl e, env2) \<Rightarrow> (Inl e, env2)
           | (Inr val, env2) \<Rightarrow>
               (case eval_pairs env2 rest of
                  (Inl e, env3) \<Rightarrow> (Inl e, env3)
                | (Inr kvs, env3) \<Rightarrow> (Inr ((key, val) # kvs), env3))))"
  by pat_completeness auto
termination
  by (relation "measure (\<lambda>x. case x of
                    Inl (env, e) \<Rightarrow> size e
                  | Inr (Inl (env, es)) \<Rightarrow> size_list size es
                  | Inr (Inr (env, kvs)) \<Rightarrow> size_list (size_prod size size) kvs)")
     auto

text \<open>
  \<open>eval\<close> on the input of \<open>fit\<close>: a string that does not parse raises
  \<open>SyntaxError\<close> and leaves the bindings as they were.
\<close>

definition py_eval :: "env \<Rightarrow> string \<Rightarrow> (exc + pyval) \<times> env" where
  "py_eval env s =
     (case py_parse s of
        None \<Rightarrow> (Inl (Exc SyntaxError ''invalid syntax''), env)
      | Some e \<Rightarrow> eval_expr env e)"

subsection \<open>\<open>ast.literal_eval\<close>\<close>

text \<open>
  \<open>ast.literal_eval\<close> parses the string and converts the tree: a constant is its
  value, a list or dictionary display is converted element by element (a dictionary pair
  by pair, each pair entering the dictionary before the next is converted), a sign may
  stand before an integer constant, and every other node is a \<open>ValueError\<close>.
\<close>

definition malformed :: exc where
  "malformed = Exc ValueError ''malformed node or string''"

function convert :: "expr \<Rightarrow> exc + pyval"
  and convert_list :: "expr list \<Rightarrow> exc + pyval list"
  and convert_pairs :: "(pyval \<times> pyval) list \<Rightarrow> (expr \<times> expr) list \<Rightarrow> exc + pyval" where
  "convert (Constant v) = Inr v"
| "convert (Name x) = Inl malformed"
| "convert (ListDisplay es) =
     (case convert_list es of Inl e \<Rightarrow> Inl e | Inr vs \<Rightarrow> Inr (PList vs))"
| "convert (DictDisplay kvs) = convert_pairs [] kvs"
| "convert (UnaryOp c operand) =
     (case operand of
        Constant (PInt i) \<Rightarrow> Inr (PInt (if c = CHR ''-'' then - i else i))
      | _ \<Rightarrow> Inl malformed)"
| "convert (BinOp left c right) = Inl malformed"
| "convert (Attribute object name) = Inl malformed"
| "convert (Call func args) = Inl malformed"
| "convert_list [] = Inr []"
| "convert_list (x # xs) =
     (case convert x of
        Inl e \<Rightarrow> Inl e
      | Inr v \<Rightarrow> (case convert_list xs of Inl e \<Rightarrow> Inl e | Inr vs \<Rightarrow> Inr (v # vs)))"
| "convert_pairs d [] = Inr (PDict d)"
| "convert_pairs d ((k, v) # rest) =
     (case convert k of
        Inl e \<Rightarrow> Inl e
      | Inr key \<Rightarrow>
          (case convert v of
             Inl e \<Rightarrow> Inl e
           | Inr val \<Rightarrow>
               if hashable key then convert_pairs (dict_set d key val) rest
               else Inl (unhashable key)))"
  by pat_completeness auto
termination
  by (relation "measure (\<lambda>x. case x of
                    Inl e \<Rightarrow> size e
                  | Inr (Inl es) \<Rightarrow> size_list size es
                  | Inr (Inr (d, kvs)) \<Rightarrow> size_list (size_prod size size) kvs)")
     auto

definition py_literal_eval :: "string \<Rightarrow> exc + pyval" where
  "py_literal_eval s =
     (case py_parse s of
        None \<Rightarrow> Inl (Exc SyntaxError ''invalid syntax'')
      | Some e \<Rightarrow> convert e)"

section \<open>\<open>extract_complete_objects\<close>\<close>

subsection \<open>The matches of the pattern\<close>

text \<open>
  The pattern \<open>(?<!\\)(\[[^][]*?(?<!\\)\]|\{[^{}]*\})\<close> matches at a position that no
  backslash precedes, in one of two ways: a \<open>[\<close>, then characters other than brackets
  up to a \<open>]\<close> that no backslash precedes; or a \<open>{\<close>, then characters other than
  braces up to a \<open>}\<close>. The characters in between can hold no closing bracket of the
  same kind, so the match ends at the first bracket (or brace) after the opening one, if
  that one closes; \<open>up_to_closing\<close> answers the characters in between.
  \<open>match_here\<close> is given the character before the position and the text
  from the position on, and answers the length of the match.
\<close>

definition up_to_closing :: "char \<Rightarrow> char \<Rightarrow> string \<Rightarrow> string option" where
  "up_to_closing closing opening cs =
     (case dropWhile (\<lambda>x. x \<noteq> closing \<and> x \<noteq> opening) cs of
        [] \<Rightarrow> None
      | d # rest \<Rightarrow>
          if d = closing then Some (takeWhile (\<lambda>x. x \<noteq> closing \<and> x \<noteq> opening) cs)
          else None)"

definition match_here :: "char option \<Rightarrow> string \<Rightarrow> nat option" where
  "match_here previous s =
     (if previous = Some (CHR 0x5C) then None
      else case s of
             [] \<Rightarrow> None
           | c # cs \<Rightarrow>
               if c = CHR ''['' then
                 (case up_to_closing (CHR '']'') (CHR ''['') cs of
                    None \<Rightarrow> None
                  | Some between \<Rightarrow>
                      if last (c # between) \<noteq> CHR 0x5C then Some (length between + 2)
                      else None)
               else if c = CHR ''{'' then
                 (case up_to_closing (CHR ''}'') (CHR ''{'') cs of
                    None \<Rightarrow> None
                  | Some between \<Rightarrow> Some (length between + 2))
               else None)"

record re_match =
  match_start :: nat
  match_end :: nat
  group1 :: string

text \<open>
  \<open>re.finditer\<close>: the matches from left to right, each search starting where the
  last match ended. The first argument counts the characters of the last match that are
  still to be passed, the second is the character before the position, the third the
  position.
\<close>

fun finditer :: "nat \<Rightarrow> char option \<Rightarrow> nat \<Rightarrow> string \<Rightarrow> re_match list" where
  "finditer k previous pos [] = []"
| "finditer (Suc k) previous pos (c # cs) = finditer k (Some c) (Suc pos) cs"
| "finditer 0 previous pos (c # cs) =
     (case match_here previous (c # cs) of
        None \<Rightarrow> finditer 0 (Some c) (Suc pos) cs
      | Some n \<Rightarrow>
          \<lparr>match_start = pos, match_end = pos + n, group1 = take n (c # cs)\<rparr>
            # finditer (n - 1) (Some c) (Suc pos) cs)"

subsection \<open>The scan\<close>

text \<open>
  The variables of the first loop. \<open>opening\<close> is a dictionary with the two keys
  \<open>{\<close> and \<open>[\<close>, kept as two counters; \<open>closing\<close> maps \<open>}\<close> to \<open>{\<close> and \<open>]\<close>
  to \<open>[\<close> and never changes.
\<close>

record scan =
  object_strings :: "string list"
  opening_brace :: nat
  opening_bracket :: nat
  stack :: "string list"
  start :: nat

definition scan_match :: "string \<Rightarrow> scan \<Rightarrow> re_match \<Rightarrow> scan" where
  "scan_match string s m =
     (let s = (if length (stack s) = 0 then s\<lparr>start := match_start m\<rparr> else s);
          s = s\<lparr>stack := stack s @ [group1 m]\<rparr>
      in if last (group1 m) = CHR ''}'' \<or> last (group1 m) = CHR '']'' then
           (let s = (if last (group1 m) = CHR ''}''
                     then s\<lparr>opening_brace := opening_brace s + 1\<rparr>
                     else s\<lparr>opening_bracket := opening_bracket s + 1\<rparr>);
                count = (if last (group1 m) = CHR ''}'' then opening_brace s
                         else opening_bracket s)
            in if count = length (filter (\<lambda>bracket. bracket \<noteq> 0)
                                    [opening_brace s, opening_bracket s])
               then s\<lparr>object_strings :=
                        object_strings s
                          @ [take (match_end m - start s) (drop (start s) string)],
                      stack := [], opening_brace := 0, opening_bracket := 0\<rparr>
               else s)
         else s)"

definition scan_all :: "string \<Rightarrow> scan" where
  "scan_all string =
     foldl (scan_match string)
       \<lparr>object_strings = [], opening_brace = 0, opening_bracket = 0, stack = [], start = 0\<rparr>
       (finditer 0 None 0 string)"

subsection \<open>The evaluation of the object strings\<close>

text \<open>
  \<open>ast.literal_eval\<close> is a parameter. A \<open>ValueError\<close> or a \<open>SyntaxError\<close> prints
  a line and the loop goes on; any other exception leaves the function. The result is
  what was printed, and the list returned or the exception raised.
\<close>

fun evaluate_objects ::
  "(string \<Rightarrow> exc + pyval) \<Rightarrow> string list \<Rightarrow> string list \<Rightarrow> pyval list
     \<Rightarrow> string list \<times> (exc + pyval list)" where
  "evaluate_objects literal_eval [] printed objects = (printed, Inr objects)"
| "evaluate_objects literal_eval (object_string # rest) printed objects =
     (case literal_eval object_string of
        Inr obj \<Rightarrow> evaluate_objects literal_eval rest printed (objects @ [obj])
      | Inl e \<Rightarrow>
          if exc_class_of e = ValueError \<or> exc_class_of e = SyntaxError
          then evaluate_objects literal_eval rest
                 (printed @ [''Error evaluating object string '' @ [CHR 0x27] @ object_string
                             @ [CHR 0x27] @ '': '' @ exc_message e])
                 objects
          else (printed, Inl e))"

definition extract_complete_objects ::
  "(string \<Rightarrow> exc + pyval) \<Rightarrow> string \<Rightarrow> string list \<times> (exc + pyval list)" where
  "extract_complete_objects literal_eval string =
     (let s = scan_all string;
          printed = (if length (stack s) > 0
                     then [''Error: Incomplete object at end of string: '' @ last (stack s)]
                     else [])
      in evaluate_objects literal_eval (object_strings s) printed [])"

section \<open>Notions used in the proofs\<close>

text \<open>
  The tuples that \<open>get_combinations\<close> joins when it is given an end mark: for each
  length from 1 to \<open>N\<close>, the tuples of \<open>itertools.product\<close> that end with the mark.
\<close>

definition tuples_upto :: "string list \<Rightarrow> string \<Rightarrow> nat \<Rightarrow> string list list" where
  "tuples_upto marks m N =
     concat (map (\<lambda>k. filter (\<lambda>comb. last comb = m) (product_repeat marks (Suc k))) [0..<N])"

text \<open>
  A match closes when its text ends with \<open>}\<close> or \<open>]\<close>; the scan is idle when
  its stack is empty and both of its counters are zero.
\<close>

definition closes :: "re_match \<Rightarrow> bool" where
  "closes m = (last (group1 m) = CHR ''}'' \<or> last (group1 m) = CHR '']'')"

definition idle :: "scan \<Rightarrow> bool" where
  "idle s = (stack s = [] \<and> opening_brace s = 0 \<and> opening_bracket s = 0)"

section \<open>The examples\<close>

subsection \<open>The evaluators on the strings of the examples\<close>

lemma py_eval_complete_object:
  \<open>py_eval module_env ''{"a": 1, "b": 2}''
     = (Inr (PDict [(PStr ''a'', PInt 1), (PStr ''b'', PInt 2)]), module_env)\<close>
  by code_simp

lemma py_eval_truncated_object:
  \<open>py_eval module_env ''{"a": 1, "b": 2''
     = (Inl (Exc SyntaxError ''invalid syntax''), module_env)\<close>
  by code_simp

lemma py_eval_single_quotes:
  \<open>py_eval module_env ''{'a': 1}'' = (Inr (PDict [(PStr ''a'', PInt 1)]), module_env)\<close>
  by code_simp

lemma py_eval_sum: \<open>py_eval module_env ''1+1'' = (Inr (PInt 2), module_env)\<close>
  by code_simp


lemma py_eval_quit:
  \<open>py_eval module_env ''quit()'' = (Inl (Exc SystemExit ''None''), module_env)\<close>
  by code_simp

lemma py_eval_json_true:
  \<open>py_eval module_env ''{"a": true}''
     = (Inl (Exc NameError ''name 'true' is not defined''), module_env)\<close>
  by code_simp

lemma py_eval_nul:
  \<open>py_eval module_env ''nul''
     = (Inl (Exc NameError ''name 'nul' is not defined''), module_env)\<close>
  by code_simp


lemma py_eval_rebinds_class:
  \<open>py_eval module_env ''[setattr(Parser,'complete_json_object',staticmethod(Parser.complete_json_object)),setattr(Parser,'find_max_length',staticmethod(Parser.find_max_length)),x]''
     = (Inl (Exc NameError ''name 'x' is not defined''),
        \<lparr>re_sub = Function, complete_json_object_attr = StaticMethod,
          find_max_length_attr = StaticMethod\<rparr>)\<close>
  by code_simp

lemma json_loads_json_true:
  \<open>json_loads ''{"a": true}'' = Loaded (PDict [(PStr ''a'', PBool True)])\<close>
  by code_simp

lemma json_loads_single_quotes: \<open>json_loads ''{'a': 1}'' = JSONDecodeError\<close>
  by code_simp

lemma json_loads_sum: \<open>json_loads ''1+1'' = JSONDecodeError\<close>
  by code_simp

lemma stripped_truncated_object:
  \<open>py_strip (strip_trailing_brackets ''{"a": 1, "b": 2'') = ''{"a": 1, "b": 2''\<close>
  by code_simp

lemma stripped_json_true:
  \<open>py_strip (strip_trailing_brackets ''{"a": true}'') = ''{"a": true''\<close>
  by code_simp

lemma stripped_nul: \<open>py_strip (strip_trailing_brackets ''nul'') = ''nul''\<close>
  by code_simp

lemma complete_json_object_docstring:
  \<open>complete_json_object json_loads ''{"a": 1, "b": 2'' ''}''
     = Inr (PDict [(PStr ''a'', PInt 1), (PStr ''b'', PInt 2)])\<close>
  by code_simp

lemma find_max_length_one:
  \<open>find_max_length py_str [PDict [(PStr ''a'', PInt 1), (PStr ''b'', PInt 2)]]
     = Inr \<lparr>completion = PDict [(PStr ''a'', PInt 1), (PStr ''b'', PInt 2)],
            suggestions = [PDict [(PStr ''a'', PInt 1), (PStr ''b'', PInt 2)]]\<rparr>\<close>
  by code_simp

section \<open>Properties of the completion search\<close>

subsection \<open>Calls through the instance\<close>

lemma show_nat_digits:
  "show_nat (Suc 0) = ''1''" "show_nat (Suc (Suc 0)) = ''2''"
  "show_nat (Suc (Suc (Suc 0))) = ''3''"
  by (simp_all add: show_nat.simps)

lemma call_complete_json_object:
  "call_method ''Parser.complete_json_object'' [''json_str'', ''completion_str''] body [a, b]
     = Inl (Exc TypeError
         ''Parser.complete_json_object() takes 2 positional arguments but 3 were given'')"
  by (simp add: call_method_def call_function_def too_many_arguments_def show_nat_digits)

lemma call_find_max_length:
  "call_method ''Parser.find_max_length'' [''data_list''] body [a]
     = Inl (Exc TypeError
         ''Parser.find_max_length() takes 1 positional argument but 2 were given'')"
  by (simp add: call_method_def call_function_def too_many_arguments_def show_nat_digits)

lemma call_static_find_max_length:
  "call_function ''Parser.find_max_length'' [''data_list''] (find_max_length_def strf)
     [ListArg completions] = find_max_length strf completions"
  by (simp add: call_function_def)

lemma call_static_complete_json_object:
  "call_function ''Parser.complete_json_object'' [''json_str'', ''completion_str'']
     (complete_json_object_def loads) [StrArg json_str, StrArg completion_str]
     = complete_json_object loads json_str completion_str"
  by (simp add: call_function_def)

lemma try_completions_all_raise:
  assumes "\<And>completion_str. \<exists>e. attempt completion_str = Inl e \<and> is_Exception e"
  shows "try_completions attempt strs completions = Inr completions"
proof (induction strs)
  case Nil
  show ?case by simp
next
  case (Cons completion_str rest)
  obtain e where "attempt completion_str = Inl e" "is_Exception e"
    using assms by blast
  with Cons.IH show ?case by simp
qed

text \<open>
  With the two functions bound as the class body binds them,
  \<open>get_possible_completions\<close> raises on every string.
\<close>

lemma get_possible_completions_raises:
  assumes "complete_json_object_attr env = Function" and "find_max_length_attr env = Function"
  shows "get_possible_completions env loads strf json_str n =
     Inl (if py_strip json_str = [] then Exc IndexError ''string index out of range''
          else Exc TypeError
                 ''Parser.find_max_length() takes 1 positional argument but 2 were given'')"
proof (cases "py_strip json_str")
  case Nil
  then show ?thesis by (simp add: get_possible_completions_def)
next
  case (Cons c cs)
  have "try_completions
          (\<lambda>completion_str.
             call_method ''Parser.complete_json_object'' [''json_str'', ''completion_str'']
               (complete_json_object_def loads) [StrArg json_str, StrArg completion_str])
          strs [] = Inr []" for strs
    by (rule try_completions_all_raise)
       (simp add: call_complete_json_object is_Exception_def)
  with Cons assms show ?thesis
    by (simp add: get_possible_completions_def Let_def call_attribute_def
          call_find_max_length)
qed

lemma get_possible_completions_module_env:
  "get_possible_completions module_env loads strf json_str n =
     Inl (if py_strip json_str = [] then Exc IndexError ''string index out of range''
          else Exc TypeError
                 ''Parser.find_max_length() takes 1 positional argument but 2 were given'')"
  by (rule get_possible_completions_raises) (simp_all add: module_env_def)

text \<open>
  What \<open>fit\<close> does when the evaluation of the input leaves the three names bound as the
  module binds them.
\<close>

lemma fit_outcome:
  assumes "evalf module_env json_str = (outcome, module_env)"
  shows "fit evalf loads strf module_env json_str n =
     (case outcome of
        Inr output \<Rightarrow>
          (Inr \<lparr>status = ''completed'', object_type = Some (py_type output),
                data = Completion output []\<rparr>,
           module_env)
      | Inl e \<Rightarrow>
          if is_Exception e
          then (Inr \<lparr>status = ''failed'', object_type = None,
                     data = ErrorMessage
                       (if py_strip (strip_trailing_brackets json_str) = []
                        then ''string index out of range''
                        else ''Parser.find_max_length() takes 1 positional argument but 2 were given'')\<rparr>,
                module_env)
          else (Inl e, module_env))"
proof -
  have sub: "call_sub (re_sub module_env) json_str = Inr (strip_trailing_brackets json_str)"
    by (simp add: call_sub_def module_env_def)
  show ?thesis
    by (simp add: fit_def assms sub get_possible_completions_module_env is_Exception_def
          split: sum.split)
qed

lemma fit_py_eval:
  assumes "py_eval module_env json_str = (outcome, module_env)"
  shows "fit py_eval loads strf module_env json_str n =
     (case outcome of
        Inr output \<Rightarrow>
          (Inr \<lparr>status = ''completed'', object_type = Some (py_type output),
                data = Completion output []\<rparr>,
           module_env)
      | Inl e \<Rightarrow>
          if is_Exception e
          then (Inr \<lparr>status = ''failed'', object_type = None,
                     data = ErrorMessage
                       (if py_strip (strip_trailing_brackets json_str) = []
                        then ''string index out of range''
                        else ''Parser.find_max_length() takes 1 positional argument but 2 were given'')\<rparr>,
                module_env)
          else (Inl e, module_env))"
  using assms by (rule fit_outcome [where evalf = py_eval])

text \<open>
  C2. Where the evaluation of the input leaves \<open>re.sub\<close> and the two functions of the
  class bound as the module binds them: a function of the class that is defined without
  \<open>self\<close> and called through the instance raises \<open>TypeError\<close> at the call, for
  \<open>complete_json_object\<close> and for \<open>find_max_length\<close>; \<open>get_possible_completions\<close>
  raises \<open>TypeError\<close> or \<open>IndexError\<close> on every string and never returns; \<open>fit\<close>
  returns the \<open>completed\<close> dictionary when the evaluation returns an object, it returns
  the \<open>failed\<close> dictionary with the message of the exception of
  \<open>get_possible_completions\<close> when the evaluation raises an exception derived from
  \<open>Exception\<close>, and the exception of the evaluation leaves \<open>fit\<close> when it is not
  derived from \<open>Exception\<close>; so \<open>fit\<close> returns no dictionary of status
  \<open>incomplete\<close>.
\<close>

theorem fit_status_never_incomplete:
  assumes "snd (evalf module_env json_str) = module_env"
  shows
  "(\<exists>e. call_attribute Function ''Parser.complete_json_object''
           [''json_str'', ''completion_str'']
           (complete_json_object_def loads) [StrArg string, StrArg completion_str] = Inl e
         \<and> exc_class_of e = TypeError)
   \<and> (\<exists>e. call_attribute Function ''Parser.find_max_length'' [''data_list'']
           (find_max_length_def strf) [ListArg completions] = Inl e
         \<and> exc_class_of e = TypeError)
   \<and> (\<exists>e. get_possible_completions module_env loads strf string n = Inl e
         \<and> (exc_class_of e = TypeError \<or> exc_class_of e = IndexError))
   \<and> (case fst (evalf module_env json_str) of
         Inr output \<Rightarrow>
           fit evalf loads strf module_env json_str n =
             (Inr \<lparr>status = ''completed'', object_type = Some (py_type output),
                   data = Completion output []\<rparr>,
              module_env)
       | Inl e0 \<Rightarrow>
           if is_Exception e0
           then \<exists>e. get_possible_completions module_env loads strf
                       (strip_trailing_brackets json_str) n = Inl e
                    \<and> fit evalf loads strf module_env json_str n =
                        (Inr \<lparr>status = ''failed'', object_type = None,
                              data = ErrorMessage (exc_message e)\<rparr>,
                         module_env)
           else fit evalf loads strf module_env json_str n = (Inl e0, module_env))
   \<and> \<not> (\<exists>r. fst (fit evalf loads strf module_env json_str n) = Inr r
             \<and> status r = ''incomplete'')"
proof -
  obtain outcome where outcome: "evalf module_env json_str = (outcome, module_env)"
    using assms by (cases "evalf module_env json_str") simp
  note fit = fit_outcome [where evalf = evalf and json_str = json_str and loads = loads
                            and strf = strf and n = n, OF outcome]
  show ?thesis
  proof (intro conjI)
    show "\<exists>e. call_attribute Function ''Parser.complete_json_object''
             [''json_str'', ''completion_str'']
             (complete_json_object_def loads) [StrArg string, StrArg completion_str] = Inl e
           \<and> exc_class_of e = TypeError"
      by (simp add: call_attribute_def call_complete_json_object)
    show "\<exists>e. call_attribute Function ''Parser.find_max_length'' [''data_list'']
             (find_max_length_def strf) [ListArg completions] = Inl e
           \<and> exc_class_of e = TypeError"
      by (simp add: call_attribute_def call_find_max_length)
    show "\<exists>e. get_possible_completions module_env loads strf string n = Inl e
           \<and> (exc_class_of e = TypeError \<or> exc_class_of e = IndexError)"
      by (simp add: get_possible_completions_module_env)
    show "case fst (evalf module_env json_str) of
         Inr output \<Rightarrow>
           fit evalf loads strf module_env json_str n =
             (Inr \<lparr>status = ''completed'', object_type = Some (py_type output),
                   data = Completion output []\<rparr>,
              module_env)
       | Inl e0 \<Rightarrow>
           if is_Exception e0
           then \<exists>e. get_possible_completions module_env loads strf
                       (strip_trailing_brackets json_str) n = Inl e
                    \<and> fit evalf loads strf module_env json_str n =
                        (Inr \<lparr>status = ''failed'', object_type = None,
                              data = ErrorMessage (exc_message e)\<rparr>,
                         module_env)
           else fit evalf loads strf module_env json_str n = (Inl e0, module_env)"
      by (simp add: outcome fit get_possible_completions_module_env split: sum.split)
    show "\<not> (\<exists>r. fst (fit evalf loads strf module_env json_str n) = Inr r
             \<and> status r = ''incomplete'')"
      by (auto simp add: fit split: sum.splits if_splits)
  qed
qed

subsection \<open>Truncation in \<open>complete_json_object\<close>\<close>

lemma prefix_butlast_cases:
  assumes "prefix q s"
  shows "q = s \<or> prefix q (butlast s)"
proof (cases "q = s")
  case True
  then show ?thesis by simp
next
  case False
  from assms obtain z where z: "s = q @ z" by (auto simp add: prefix_def)
  with False have "z \<noteq> []" by auto
  then have "butlast s = q @ butlast z" using z by (simp add: butlast_append)
  then show ?thesis by simp
qed

lemma complete_json_object_loop_attempts:
  "fst (complete_json_object_loop loads k s c) \<le> k + length s"
proof (induction loads k s c rule: complete_json_object_loop.induct)
  case (1 loads attempts json_str completion_str)
  show ?case
  proof (cases "json_str = []")
    case True
    then show ?thesis by (simp add: complete_json_object_loop.simps)
  next
    case False
    then have len: "Suc attempts + length (butlast json_str) = attempts + length json_str"
      by (cases json_str rule: rev_cases) simp_all
    have one: "Suc 0 \<le> length json_str" using False by (cases json_str) simp_all
    show ?thesis
    proof (cases "loads (json_str @ completion_str)")
      case JSONDecodeError
      have "fst (complete_json_object_loop loads (Suc attempts) (butlast json_str) completion_str)
              \<le> Suc attempts + length (butlast json_str)"
        using "1.IH" False JSONDecodeError by simp
      then have "fst (complete_json_object_loop loads (Suc attempts) (butlast json_str)
                        completion_str) \<le> attempts + length json_str"
        by (simp only: len)
      then show ?thesis
        using False JSONDecodeError by (subst complete_json_object_loop.simps) simp
    next
      case (Loaded v)
      with False one show ?thesis
        by (subst complete_json_object_loop.simps) simp
    next
      case (Raises e)
      with False one show ?thesis
        by (subst complete_json_object_loop.simps) simp
    qed
  qed
qed

text \<open>
  The loop stops at the longest prefix that is not empty and whose parse, with the
  completion, does not raise \<open>JSONDecodeError\<close>, after one attempt for that prefix and
  one for each longer one.
\<close>

lemma complete_json_object_loop_longest:
  assumes "prefix p s" and "p \<noteq> []" and "loads (p @ c) \<noteq> JSONDecodeError"
    and "\<forall>q. prefix q s \<and> length p < length q \<longrightarrow> loads (q @ c) = JSONDecodeError"
  shows "complete_json_object_loop loads k s c =
           (k + (length s - length p) + 1,
            case loads (p @ c) of Loaded v \<Rightarrow> Inr v | Raises e \<Rightarrow> Inl e
            | JSONDecodeError \<Rightarrow> Inl (Exc ValueError ''Couldn't fix JSON''))"
  using assms
proof (induction loads k s c rule: complete_json_object_loop.induct)
  case (1 loads attempts json_str completion_str)
  from "1.prems" have ne: "json_str \<noteq> []" by auto
  show ?case
  proof (cases "p = json_str")
    case True
    with "1.prems" ne show ?thesis
      by (subst complete_json_object_loop.simps) (simp split: loaded.split)
  next
    case False
    with "1.prems" have p: "prefix p (butlast json_str)"
      using prefix_butlast_cases by blast
    from "1.prems"(1) obtain z where z: "json_str = p @ z" by (auto simp add: prefix_def)
    with False have "z \<noteq> []" by auto
    with z have "length p < length json_str" by simp
    with "1.prems" have fails: "loads (json_str @ completion_str) = JSONDecodeError" by simp
    have longer: "\<forall>q. prefix q (butlast json_str) \<and> length p < length q
                    \<longrightarrow> loads (q @ completion_str) = JSONDecodeError"
      using "1.prems"(4) prefixeq_butlast by (meson prefix_order.trans)
    have "complete_json_object_loop loads (Suc attempts) (butlast json_str) completion_str =
            (Suc attempts + (length (butlast json_str) - length p) + 1,
             case loads (p @ completion_str) of Loaded v \<Rightarrow> Inr v | Raises e \<Rightarrow> Inl e
             | JSONDecodeError \<Rightarrow> Inl (Exc ValueError ''Couldn't fix JSON''))"
      using "1.IH" [OF ne fails p "1.prems"(2) "1.prems"(3) longer] .
    moreover have "Suc attempts + (length (butlast json_str) - length p) + 1
                     = attempts + (length json_str - length p) + 1"
      using \<open>length p < length json_str\<close> by simp
    ultimately show ?thesis
      using ne fails by (subst complete_json_object_loop.simps) simp
  qed
qed

lemma complete_json_object_loop_sound:
  "snd (complete_json_object_loop loads k s c) = Inr v \<Longrightarrow>
     \<exists>p. p \<noteq> [] \<and> prefix p s \<and> loads (p @ c) = Loaded v
         \<and> (\<forall>q. prefix q s \<and> length p < length q \<longrightarrow> loads (q @ c) = JSONDecodeError)"
proof (induction loads k s c rule: complete_json_object_loop.induct)
  case (1 loads attempts json_str completion_str)
  show ?case
  proof (cases "json_str = []")
    case True
    with "1.prems" show ?thesis by (simp add: complete_json_object_loop.simps)
  next
    case False
    show ?thesis
    proof (cases "loads (json_str @ completion_str)")
      case JSONDecodeError
      have "snd (complete_json_object_loop loads (Suc attempts) (butlast json_str) completion_str)
              = Inr v"
        using "1.prems" False JSONDecodeError
        by (subst (asm) complete_json_object_loop.simps) simp
      then obtain p where p: "p \<noteq> []" "prefix p (butlast json_str)"
          "loads (p @ completion_str) = Loaded v"
          "\<forall>q. prefix q (butlast json_str) \<and> length p < length q
                 \<longrightarrow> loads (q @ completion_str) = JSONDecodeError"
        using "1.IH" False JSONDecodeError by blast
      have "prefix p json_str"
        using p(2) prefixeq_butlast by (meson prefix_order.trans)
      moreover have "\<forall>q. prefix q json_str \<and> length p < length q
                       \<longrightarrow> loads (q @ completion_str) = JSONDecodeError"
        using p(4) JSONDecodeError prefix_butlast_cases by blast
      ultimately show ?thesis using p(1) p(3) by blast
    next
      case (Loaded w)
      have "w = v"
        using "1.prems" False Loaded by (subst (asm) complete_json_object_loop.simps) simp
      moreover have "\<forall>q. prefix q json_str \<and> length json_str < length q
                       \<longrightarrow> loads (q @ completion_str) = JSONDecodeError"
        using prefix_length_le by fastforce
      ultimately show ?thesis using False Loaded by blast
    next
      case (Raises e)
      with "1.prems" False show ?thesis
        by (subst (asm) complete_json_object_loop.simps) simp
    qed
  qed
qed

lemma complete_json_object_loop_exhausted:
  "(\<forall>p. p \<noteq> [] \<and> prefix p s \<longrightarrow> loads (p @ c) = JSONDecodeError) \<Longrightarrow>
     complete_json_object_loop loads k s c
       = (k + length s, Inl (Exc ValueError ''Couldn't fix JSON''))"
proof (induction loads k s c rule: complete_json_object_loop.induct)
  case (1 loads attempts json_str completion_str)
  show ?case
  proof (cases "json_str = []")
    case True
    then show ?thesis by (simp add: complete_json_object_loop.simps)
  next
    case False
    have none: "loads (json_str @ completion_str) = JSONDecodeError"
      using "1.prems" False by simp
    have "\<forall>p. p \<noteq> [] \<and> prefix p (butlast json_str)
            \<longrightarrow> loads (p @ completion_str) = JSONDecodeError"
      using "1.prems" prefixeq_butlast by (meson prefix_order.trans)
    then have "complete_json_object_loop loads (Suc attempts) (butlast json_str) completion_str
                 = (Suc attempts + length (butlast json_str),
                    Inl (Exc ValueError ''Couldn't fix JSON''))"
      using "1.IH" False none by simp
    moreover have "Suc (length (butlast json_str)) = length json_str"
      using False by simp
    ultimately show ?thesis
      using False none by (subst complete_json_object_loop.simps) simp
  qed
qed

subsection \<open>\<open>json.loads\<close> on an integer of too many digits\<close>

lemma json_tokens_passed: "length cs \<le> k \<Longrightarrow> json_tokens k cs = []"
proof (induction cs arbitrary: k)
  case Nil
  show ?case by simp
next
  case (Cons c cs)
  then obtain j where "k = Suc j" by (cases k) simp_all
  with Cons show ?case by simp
qed

lemma json_token_digits:
  assumes "max_str_digits < int (Suc n)"
  shows "json_token (CHR ''1'' # replicate n (CHR ''1'')) = Some (JExceeds (Suc n), [])"
proof -
  have digit: "is_digit (CHR ''1'')" by (simp add: is_digit_def)
  have tw: "takeWhile is_digit (CHR ''1'' # replicate n (CHR ''1'')) = CHR ''1'' # replicate n (CHR ''1'')"
    using digit by (simp add: takeWhile_replicate)
  have dw: "dropWhile is_digit (CHR ''1'' # replicate n (CHR ''1'')) = []"
    using digit by (simp add: dropWhile_replicate)
  have number: "json_number (CHR ''1'' # replicate n (CHR ''1'')) = Some (JExceeds (Suc n), [])"
    using assms digit
    by (simp add: json_number_def json_integer_part_def json_fraction_def json_exponent_def
          tw dw Let_def del: takeWhile.simps dropWhile.simps)
  show ?thesis
    by (simp add: json_token_def number)
qed

lemma json_loads_digits:
  assumes "max_str_digits < int (Suc n)"
  shows "json_loads (CHR ''1'' # replicate n (CHR ''1'')) = Raises (exceeds_limit (Suc n))"
proof -
  have "json_tokens 0 (CHR ''1'' # replicate n (CHR ''1'')) = [JExceeds (Suc n)]"
    using json_token_digits [OF assms]
    by (simp add: json_whitespace_def json_tokens_passed)
  then show ?thesis
    by (simp add: json_loads_def Let_def numeral_eq_Suc)
qed

lemma json_loads_bracket_digits:
  assumes "max_str_digits < int (Suc n)"
  shows "json_loads (CHR ''['' # CHR ''1'' # replicate n (CHR ''1''))
           = Raises (exceeds_limit (Suc n))"
proof -
  have "json_tokens 0 (CHR ''1'' # replicate n (CHR ''1'')) = [JExceeds (Suc n)]"
    using json_token_digits [OF assms]
    by (simp add: json_whitespace_def json_tokens_passed)
  then have "json_tokens 0 (CHR ''['' # CHR ''1'' # replicate n (CHR ''1''))
               = [JLBracket, JExceeds (Suc n)]"
    by (simp add: json_whitespace_def json_token_def)
  then show ?thesis
    by (simp add: json_loads_def Let_def numeral_eq_Suc)
qed

lemma show_nat_4301: "show_nat 4300 = ''4300''" "show_nat 4301 = ''4301''"
  by (simp_all add: show_nat.simps)

lemma exceeds_limit_4301:
  \<open>exceeds_limit 4301
     = Exc ValueError ''Exceeds the limit (4300 digits) for integer string conversion: value has 4301 digits; use sys.set_int_max_str_digits() to increase the limit''\<close>
  by (simp add: exceeds_limit_def max_str_digits_def show_nat_4301)

lemma replicate_4301: "replicate 4301 c = c # replicate 4300 c"
proof -
  have "(4301 :: nat) = Suc 4300" by simp
  then show ?thesis by (simp only: replicate_Suc)
qed

lemma json_loads_4301_digits:
  \<open>json_loads (replicate 4301 (CHR ''1''))
     = Raises (Exc ValueError ''Exceeds the limit (4300 digits) for integer string conversion: value has 4301 digits; use sys.set_int_max_str_digits() to increase the limit'')\<close>
proof -
  have "max_str_digits < int (Suc 4300)" by (simp add: max_str_digits_def)
  from json_loads_digits [OF this] have
    "json_loads (CHR ''1'' # replicate 4300 (CHR ''1'')) = Raises (exceeds_limit 4301)"
    by simp
  then show ?thesis by (simp only: replicate_4301 exceeds_limit_4301)
qed

lemma json_loads_bracket_4301_digits:
  \<open>json_loads (CHR ''['' # replicate 4301 (CHR ''1''))
     = Raises (Exc ValueError ''Exceeds the limit (4300 digits) for integer string conversion: value has 4301 digits; use sys.set_int_max_str_digits() to increase the limit'')\<close>
proof -
  have "max_str_digits < int (Suc 4300)" by (simp add: max_str_digits_def)
  from json_loads_bracket_digits [OF this] have
    "json_loads (CHR ''['' # CHR ''1'' # replicate 4300 (CHR ''1'')) = Raises (exceeds_limit 4301)"
    by simp
  then show ?thesis by (simp only: replicate_4301 exceeds_limit_4301)
qed

subsection \<open>The docstring examples\<close>

lemma no_prefix_parses:
  \<open>list_all (\<lambda>p. json_loads (p @ []) = JSONDecodeError) (tl (prefixes ''{"a": 1, "b": 2''))\<close>
  by code_simp

lemma longer_prefixes_fail:
  \<open>list_all (\<lambda>q. json_loads (q @ []) = JSONDecodeError)
     (filter (\<lambda>q. length ''{"a": 1, "b": 2}'' < length q)
        (prefixes ''{"a": 1, "b": 2}}}}}}}}}}}}}}}}}}}''))\<close>
  by code_simp

lemma json_loads_object:
  \<open>json_loads (''{"a": 1, "b": 2}'' @ [])
     = Loaded (PDict [(PStr ''a'', PInt 1), (PStr ''b'', PInt 2)])\<close>
  by code_simp

lemma prefix_of_docstring_example:
  \<open>prefix ''{"a": 1, "b": 2}'' ''{"a": 1, "b": 2}}}}}}}}}}}}}}}}}}}''\<close>
  by code_simp

text \<open>
  C4. For every text and every completion string, \<open>complete_json_object\<close> calls
  \<open>json.loads\<close> at most \<open>length text + 1\<close> times. It tries the prefixes of the text
  that are not empty, from the longest to the shortest, each followed by the completion
  string, as long as \<open>json.loads\<close> raises \<open>JSONDecodeError\<close>: a value it returns is
  the parse of the longest such prefix whose parse does not raise \<open>JSONDecodeError\<close>;
  where \<open>json.loads\<close> returns a value at that prefix the function returns it, and where
  \<open>json.loads\<close> raises another exception there, that exception leaves the function, in
  both cases after one attempt for that prefix and one for each longer one; and when every
  prefix that is not empty raises \<open>JSONDecodeError\<close>, the function raises
  \<open>ValueError\<close> with the message \<open>Couldn't fix JSON\<close>, after one attempt for each
  character of the text.
\<close>

theorem complete_json_object_truncation:
  "parse_attempts loads json_str completion_str \<le> length json_str + 1
   \<and> (\<forall>v. complete_json_object loads json_str completion_str = Inr v \<longrightarrow>
          (\<exists>p. prefix p json_str \<and> p \<noteq> [] \<and> loads (p @ completion_str) = Loaded v
               \<and> (\<forall>q. prefix q json_str \<and> length p < length q
                       \<longrightarrow> loads (q @ completion_str) = JSONDecodeError)))
   \<and> (\<forall>p. prefix p json_str \<and> p \<noteq> []
            \<and> (\<forall>q. prefix q json_str \<and> length p < length q
                    \<longrightarrow> loads (q @ completion_str) = JSONDecodeError) \<longrightarrow>
          (\<forall>v. loads (p @ completion_str) = Loaded v \<longrightarrow>
                 complete_json_object loads json_str completion_str = Inr v
                 \<and> parse_attempts loads json_str completion_str
                     = length json_str - length p + 1)
          \<and> (\<forall>e. loads (p @ completion_str) = Raises e \<longrightarrow>
                 complete_json_object loads json_str completion_str = Inl e
                 \<and> parse_attempts loads json_str completion_str
                     = length json_str - length p + 1))
   \<and> ((\<forall>p. prefix p json_str \<and> p \<noteq> [] \<longrightarrow> loads (p @ completion_str) = JSONDecodeError) \<longrightarrow>
          complete_json_object loads json_str completion_str
            = Inl (Exc ValueError ''Couldn't fix JSON'')
          \<and> parse_attempts loads json_str completion_str = length json_str)"
proof (intro conjI allI impI)
  show "parse_attempts loads json_str completion_str \<le> length json_str + 1"
    using complete_json_object_loop_attempts [of loads 0 json_str completion_str]
    by (simp add: parse_attempts_def)
next
  fix v assume "complete_json_object loads json_str completion_str = Inr v"
  then show "\<exists>p. prefix p json_str \<and> p \<noteq> [] \<and> loads (p @ completion_str) = Loaded v
               \<and> (\<forall>q. prefix q json_str \<and> length p < length q
                       \<longrightarrow> loads (q @ completion_str) = JSONDecodeError)"
    using complete_json_object_loop_sound [of loads 0 json_str completion_str v]
    by (auto simp add: complete_json_object_def)
next
  fix p v
  assume p: "prefix p json_str \<and> p \<noteq> []
             \<and> (\<forall>q. prefix q json_str \<and> length p < length q
                     \<longrightarrow> loads (q @ completion_str) = JSONDecodeError)"
    and v: "loads (p @ completion_str) = Loaded v"
  then have "complete_json_object_loop loads 0 json_str completion_str
               = (0 + (length json_str - length p) + 1, Inr v)"
    using complete_json_object_loop_longest [of p json_str loads completion_str 0] by simp
  then show "complete_json_object loads json_str completion_str = Inr v"
    and "parse_attempts loads json_str completion_str = length json_str - length p + 1"
    by (simp_all add: complete_json_object_def parse_attempts_def)
next
  fix p e
  assume p: "prefix p json_str \<and> p \<noteq> []
             \<and> (\<forall>q. prefix q json_str \<and> length p < length q
                     \<longrightarrow> loads (q @ completion_str) = JSONDecodeError)"
    and e: "loads (p @ completion_str) = Raises e"
  then have "complete_json_object_loop loads 0 json_str completion_str
               = (0 + (length json_str - length p) + 1, Inl e)"
    using complete_json_object_loop_longest [of p json_str loads completion_str 0] by simp
  then show "complete_json_object loads json_str completion_str = Inl e"
    and "parse_attempts loads json_str completion_str = length json_str - length p + 1"
    by (simp_all add: complete_json_object_def parse_attempts_def)
next
  assume h: "\<forall>p. prefix p json_str \<and> p \<noteq> [] \<longrightarrow> loads (p @ completion_str) = JSONDecodeError"
  then have "complete_json_object_loop loads 0 json_str completion_str
               = (0 + length json_str, Inl (Exc ValueError ''Couldn't fix JSON''))"
    by (intro complete_json_object_loop_exhausted) simp
  then show "complete_json_object loads json_str completion_str
               = Inl (Exc ValueError ''Couldn't fix JSON'')"
    and "parse_attempts loads json_str completion_str = length json_str"
    by (simp_all add: complete_json_object_def parse_attempts_def)
qed

theorem complete_json_object_truncation_witness:
  \<open>prefix ''{"a": 1, "b": 2}'' ''{"a": 1, "b": 2}}}}}}}}}}}}}}}}}}}''
   \<and> list_all (\<lambda>q. json_loads (q @ []) = JSONDecodeError)
        (filter (\<lambda>q. length ''{"a": 1, "b": 2}'' < length q)
           (prefixes ''{"a": 1, "b": 2}}}}}}}}}}}}}}}}}}}''))
   \<and> json_loads (''{"a": 1, "b": 2}'' @ [])
       = Loaded (PDict [(PStr ''a'', PInt 1), (PStr ''b'', PInt 2)])
   \<and> complete_json_object json_loads ''{"a": 1, "b": 2}}}}}}}}}}}}}}}}}}}'' []
       = Inr (PDict [(PStr ''a'', PInt 1), (PStr ''b'', PInt 2)])
   \<and> parse_attempts json_loads ''{"a": 1, "b": 2}}}}}}}}}}}}}}}}}}}'' [] = 19
   \<and> parse_attempts json_loads ''{"a": 1, "b": 2}}}}}}}}}}}}}}}}}}}'' []
       \<le> length ''{"a": 1, "b": 2}}}}}}}}}}}}}}}}}}}'' + 1
   \<and> list_all (\<lambda>p. json_loads (p @ []) = JSONDecodeError) (tl (prefixes ''{"a": 1, "b": 2''))
   \<and> complete_json_object json_loads ''{"a": 1, "b": 2'' []
       = Inl (Exc ValueError ''Couldn't fix JSON'')
   \<and> parse_attempts json_loads ''{"a": 1, "b": 2'' [] = 15\<close>
proof -
  let ?p = \<open>''{"a": 1, "b": 2}''\<close>
  let ?s = \<open>''{"a": 1, "b": 2}}}}}}}}}}}}}}}}}}}''\<close>
  let ?t = \<open>''{"a": 1, "b": 2''\<close>
  have longer: "\<forall>q. prefix q ?s \<and> length ?p < length q \<longrightarrow> json_loads (q @ []) = JSONDecodeError"
  proof (intro allI impI)
    fix q assume q: "prefix q ?s \<and> length ?p < length q"
    then have "q \<in> set (filter (\<lambda>q. length ?p < length q) (prefixes ?s))"
      by (simp only: set_filter in_set_prefixes mem_Collect_eq)
    with longer_prefixes_fail show "json_loads (q @ []) = JSONDecodeError"
      by (simp only: list_all_iff)
  qed
  have none: "\<forall>p. prefix p ?t \<and> p \<noteq> [] \<longrightarrow> json_loads (p @ []) = JSONDecodeError"
  proof (intro allI impI)
    fix p assume p: "prefix p ?t \<and> p \<noteq> []"
    then have "p \<in> set (prefixes ?t)" by (simp only: in_set_prefixes)
    moreover have "prefixes ?t = [] # tl (prefixes ?t)" by (cases "prefixes ?t") simp_all
    ultimately have "p \<in> set (tl (prefixes ?t))" using p by (metis set_ConsD)
    with no_prefix_parses show "json_loads (p @ []) = JSONDecodeError"
      by (simp only: list_all_iff)
  qed
  have p: "prefix ?p ?s \<and> ?p \<noteq> []" using prefix_of_docstring_example by simp
  note first = complete_json_object_truncation
         [where loads = json_loads and json_str = ?s and completion_str = \<open>[]\<close>]
  from first p longer json_loads_object
  have a: "complete_json_object json_loads ?s []
             = Inr (PDict [(PStr ''a'', PInt 1), (PStr ''b'', PInt 2)])"
    by blast
  from first p longer json_loads_object
  have "parse_attempts json_loads ?s [] = length ?s - length ?p + 1"
    by blast
  then have b: "parse_attempts json_loads ?s [] = 19" by simp
  from first have c: "parse_attempts json_loads ?s [] \<le> length ?s + 1"
    by (rule conjunct1)
  note second = complete_json_object_truncation
         [where loads = json_loads and json_str = ?t and completion_str = \<open>[]\<close>]
  from second none
  have d: "complete_json_object json_loads ?t [] = Inl (Exc ValueError ''Couldn't fix JSON'')"
    by blast
  from second none have "parse_attempts json_loads ?t [] = length ?t"
    by blast
  then have e: "parse_attempts json_loads ?t [] = 15" by simp
  from prefix_of_docstring_example longer_prefixes_fail json_loads_object a b c
       no_prefix_parses d e
  show ?thesis by (intro conjI)
qed

text \<open>
  The function does not raise \<open>Couldn't fix JSON\<close> wherever no prefix parses. With the
  text \<open>[\<close> and a completion string of 4301 digits, neither the empty prefix nor the
  text parses with the completion string: \<open>json.loads\<close> raises \<open>ValueError\<close> for the
  integer of more digits than \<open>int\<close> converts, which is no \<open>JSONDecodeError\<close>; it
  leaves the function at the first attempt, and the text is not truncated.
\<close>

theorem complete_json_object_long_integer:
  \<open>json_loads ([] @ replicate 4301 (CHR ''1''))
     = Raises (Exc ValueError ''Exceeds the limit (4300 digits) for integer string conversion: value has 4301 digits; use sys.set_int_max_str_digits() to increase the limit'')
   \<and> json_loads (''['' @ replicate 4301 (CHR ''1''))
     = Raises (Exc ValueError ''Exceeds the limit (4300 digits) for integer string conversion: value has 4301 digits; use sys.set_int_max_str_digits() to increase the limit'')
   \<and> complete_json_object json_loads ''['' (replicate 4301 (CHR ''1''))
     = Inl (Exc ValueError ''Exceeds the limit (4300 digits) for integer string conversion: value has 4301 digits; use sys.set_int_max_str_digits() to increase the limit'')
   \<and> parse_attempts json_loads ''['' (replicate 4301 (CHR ''1'')) = 1\<close>
proof -
  have loop: \<open>complete_json_object_loop json_loads 0 ''['' (replicate 4301 (CHR ''1''))
     = (1, Inl (Exc ValueError ''Exceeds the limit (4300 digits) for integer string conversion: value has 4301 digits; use sys.set_int_max_str_digits() to increase the limit''))\<close>
    by (subst complete_json_object_loop.simps)
       (simp add: json_loads_bracket_4301_digits)
  show ?thesis
    by (simp add: json_loads_4301_digits json_loads_bracket_4301_digits loop
          complete_json_object_def parse_attempts_def)
qed

subsection \<open>Ranking in \<open>find_max_length\<close>\<close>

lemma fold_max_eq_Max:
  "fold max (map f others) (f first) = Max (f ` set (first # others))"
  using Max.set_eq_fold [of "f first" "map f others"] by simp

lemma find_first_filter:
  "find P xs = (case filter P xs of [] \<Rightarrow> None | x # rest \<Rightarrow> Some x)"
  by (induction xs) simp_all

lemma reverse_sorted_stable:
  "filter (\<lambda>e. f e = k) (rev (sort_key f (rev xs))) = filter (\<lambda>e. f e = k) xs"
proof -
  have "filter (\<lambda>e. f e = k) (rev (sort_key f (rev xs)))
          = rev (filter (\<lambda>e. f e = k) (sort_key f (rev xs)))"
    by (simp add: rev_filter)
  also have "\<dots> = rev (filter (\<lambda>e. f e = k) (rev xs))"
    by (simp only: sort_key_stable)
  also have "\<dots> = filter (\<lambda>e. f e = k) xs"
    by (simp add: rev_filter)
  finally show ?thesis .
qed

lemma reverse_sorted_descending:
  "sorted_wrt (\<lambda>a b. (f b :: nat) \<le> f a) (rev (sort_key f (rev xs)))"
proof -
  have "sorted (map f (sort_key f (rev xs)))" by simp
  then have "sorted_wrt (\<lambda>a b. f a \<le> f b) (sort_key f (rev xs))"
    by (simp add: sorted_map)
  then show ?thesis by (simp add: sorted_wrt_rev)
qed

lemma hd_descending_is_greatest:
  assumes "sorted_wrt (\<lambda>a b. (f b :: nat) \<le> f a) ys" and "e \<in> set ys"
  shows "f e \<le> f (hd ys)"
  using assms by (cases ys) auto

text \<open>
  C5. For every list of candidates that is not empty, \<open>find_max_length\<close> returns a
  dictionary: its suggestions are the candidates (the same elements, as often), in
  non-increasing order of the length of their rendering, elements of equal length in the
  order of the input; the rendering of its completion is at least as long as that of every
  suggestion; and the completion is the first suggestion.
\<close>

theorem find_max_length_ranking:
  assumes "data_list \<noteq> []"
  shows "\<exists>r. find_max_length strf data_list = Inr r
     \<and> mset (suggestions r) = mset data_list
     \<and> sorted_wrt (\<lambda>a b. length (strf b) \<le> length (strf a)) (suggestions r)
     \<and> (\<forall>k. filter (\<lambda>e. length (strf e) = k) (suggestions r)
               = filter (\<lambda>e. length (strf e) = k) data_list)
     \<and> (\<forall>e \<in> set (suggestions r). length (strf e) \<le> length (strf (completion r)))
     \<and> suggestions r \<noteq> [] \<and> completion r = hd (suggestions r)"
proof -
  define f where "f = (\<lambda>e. length (strf e))"
  define ys where "ys = rev (sort_key f (rev data_list))"
  obtain first others where dl: "data_list = first # others"
    using assms by (cases data_list) auto
  define m where "m = fold max (map f others) (f first)"
  have m_Max: "m = Max (f ` set data_list)"
    unfolding m_def dl by (rule fold_max_eq_Max)
  have ys_mset: "mset ys = mset data_list" by (simp add: ys_def)
  then have ys_set: "set ys = set data_list" by (rule mset_eq_setD)
  have ys_ne: "ys \<noteq> []" using ys_set assms by auto
  have ys_sorted: "sorted_wrt (\<lambda>a b. f b \<le> f a) ys"
    unfolding ys_def by (rule reverse_sorted_descending)
  have ys_stable: "filter (\<lambda>e. f e = k) ys = filter (\<lambda>e. f e = k) data_list" for k
    unfolding ys_def by (rule reverse_sorted_stable)
  have hd_ge: "f e \<le> f (hd ys)" if "e \<in> set ys" for e
    using ys_sorted that by (rule hd_descending_is_greatest)
  have hd_in: "hd ys \<in> set data_list" using ys_ne ys_set by (metis hd_in_set)
  have "f (hd ys) = m"
  proof (rule antisym)
    show "f (hd ys) \<le> m" unfolding m_Max using hd_in by simp
    have "m \<in> f ` set data_list" unfolding m_Max using assms by (intro Max_in) simp_all
    then obtain e where "e \<in> set data_list" "m = f e" by auto
    then show "m \<le> f (hd ys)" using hd_ge ys_set by simp
  qed
  then have "filter (\<lambda>e. f e = m) ys = hd ys # filter (\<lambda>e. f e = m) (tl ys)"
    using ys_ne by (cases ys) simp_all
  then have "filter (\<lambda>e. f e = m) data_list = hd ys # filter (\<lambda>e. f e = m) (tl ys)"
    using ys_stable by simp
  then have found: "find (\<lambda>e. f e = m) data_list = Some (hd ys)"
    by (simp add: find_first_filter)
  have "find_max_length strf data_list = Inr \<lparr>completion = hd ys, suggestions = ys\<rparr>"
    using found unfolding find_max_length_def dl [symmetric]
    by (simp add: dl m_def f_def ys_def Let_def)
  then show ?thesis
    using ys_mset ys_sorted ys_stable hd_ge ys_ne by (simp add: f_def)
qed

lemma find_max_length_two:
  \<open>find_max_length py_str
      [PDict [(PStr ''a'', PInt 1)], PDict [(PStr ''a'', PInt 1), (PStr ''b'', PInt 2)]]
     = Inr \<lparr>completion = PDict [(PStr ''a'', PInt 1), (PStr ''b'', PInt 2)],
            suggestions = [PDict [(PStr ''a'', PInt 1), (PStr ''b'', PInt 2)],
                           PDict [(PStr ''a'', PInt 1)]]\<rparr>\<close>
  by code_simp

theorem find_max_length_ranking_witness:
  \<open>[PDict [(PStr ''a'', PInt 1)], PDict [(PStr ''a'', PInt 1), (PStr ''b'', PInt 2)]] \<noteq> []
   \<and> find_max_length py_str
        [PDict [(PStr ''a'', PInt 1)], PDict [(PStr ''a'', PInt 1), (PStr ''b'', PInt 2)]]
       = Inr \<lparr>completion = PDict [(PStr ''a'', PInt 1), (PStr ''b'', PInt 2)],
              suggestions = [PDict [(PStr ''a'', PInt 1), (PStr ''b'', PInt 2)],
                             PDict [(PStr ''a'', PInt 1)]]\<rparr>
   \<and> (\<exists>r. find_max_length py_str
             [PDict [(PStr ''a'', PInt 1)], PDict [(PStr ''a'', PInt 1), (PStr ''b'', PInt 2)]]
            = Inr r
        \<and> mset (suggestions r)
            = mset [PDict [(PStr ''a'', PInt 1)],
                    PDict [(PStr ''a'', PInt 1), (PStr ''b'', PInt 2)]]
        \<and> sorted_wrt (\<lambda>a b. length (py_str b) \<le> length (py_str a)) (suggestions r)
        \<and> (\<forall>e \<in> set (suggestions r). length (py_str e) \<le> length (py_str (completion r)))
        \<and> suggestions r \<noteq> [] \<and> completion r = hd (suggestions r))\<close>
proof -
  have ne: \<open>[PDict [(PStr ''a'', PInt 1)], PDict [(PStr ''a'', PInt 1), (PStr ''b'', PInt 2)]]
              \<noteq> []\<close>
    by simp
  from find_max_length_ranking [where strf = py_str, OF ne]
  obtain r where r:
    \<open>find_max_length py_str
        [PDict [(PStr ''a'', PInt 1)], PDict [(PStr ''a'', PInt 1), (PStr ''b'', PInt 2)]]
       = Inr r\<close>
    \<open>mset (suggestions r)
       = mset [PDict [(PStr ''a'', PInt 1)], PDict [(PStr ''a'', PInt 1), (PStr ''b'', PInt 2)]]\<close>
    \<open>sorted_wrt (\<lambda>a b. length (py_str b) \<le> length (py_str a)) (suggestions r)\<close>
    \<open>\<forall>e \<in> set (suggestions r). length (py_str e) \<le> length (py_str (completion r))\<close>
    \<open>suggestions r \<noteq> []\<close> \<open>completion r = hd (suggestions r)\<close>
    by blast
  from r have ex: \<open>\<exists>r. find_max_length py_str
             [PDict [(PStr ''a'', PInt 1)], PDict [(PStr ''a'', PInt 1), (PStr ''b'', PInt 2)]]
            = Inr r
        \<and> mset (suggestions r)
            = mset [PDict [(PStr ''a'', PInt 1)],
                    PDict [(PStr ''a'', PInt 1), (PStr ''b'', PInt 2)]]
        \<and> sorted_wrt (\<lambda>a b. length (py_str b) \<le> length (py_str a)) (suggestions r)
        \<and> (\<forall>e \<in> set (suggestions r). length (py_str e) \<le> length (py_str (completion r)))
        \<and> suggestions r \<noteq> [] \<and> completion r = hd (suggestions r)\<close>
    by blast
  from ne find_max_length_two ex show ?thesis by (intro conjI)
qed

subsection \<open>Enumeration in \<open>get_combinations\<close>\<close>

lemma set_product_repeat:
  "set (product_repeat xs i) = {c. length c = i \<and> set c \<subseteq> set xs}"
proof (induction i)
  case 0
  show ?case by auto
next
  case (Suc i)
  show ?case
  proof (rule set_eqI)
    fix c
    show "c \<in> set (product_repeat xs (Suc i)) \<longleftrightarrow> c \<in> {c. length c = Suc i \<and> set c \<subseteq> set xs}"
      using Suc.IH by (cases c) auto
  qed
qed

lemma product_repeat_nonempty: "xs \<noteq> [] \<Longrightarrow> product_repeat xs i \<noteq> []"
proof (induction i)
  case 0
  show ?case by simp
next
  case (Suc i)
  then show ?case by (cases xs) simp_all
qed

lemma sorted_equal_lengths:
  "\<forall>c \<in> set ys. length c = k \<Longrightarrow> sorted (map length ys)"
  by (induction ys) simp_all

lemma length_le_nat_iff: "c \<noteq> [] \<Longrightarrow> length c \<le> nat n \<longleftrightarrow> int (length c) \<le> n"
  by (cases c) auto

lemma distinct_product_repeat:
  "distinct xs \<Longrightarrow> distinct (product_repeat xs i)"
proof (induction i)
  case 0
  show ?case by simp
next
  case (Suc i)
  have "distinct (concat (map (\<lambda>x. map ((#) x) (product_repeat xs i)) xs))"
  proof (rule distinct_concat)
    show "distinct (map (\<lambda>x. map ((#) x) (product_repeat xs i)) xs)"
    proof (cases "product_repeat xs i = []")
      case True
      then have "xs = []" using product_repeat_nonempty [of xs i] by blast
      then show ?thesis by simp
    next
      case False
      then obtain t ts where "product_repeat xs i = t # ts" by (cases "product_repeat xs i") auto
      then have "inj_on (\<lambda>x. map ((#) x) (product_repeat xs i)) (set xs)"
        by (auto simp add: inj_on_def)
      then show ?thesis using Suc.prems by (simp add: distinct_map)
    qed
  next
    fix ys assume "ys \<in> set (map (\<lambda>x. map ((#) x) (product_repeat xs i)) xs)"
    then show "distinct ys" using Suc by (auto simp add: distinct_map)
  next
    fix ys zs
    assume "ys \<in> set (map (\<lambda>x. map ((#) x) (product_repeat xs i)) xs)"
       "zs \<in> set (map (\<lambda>x. map ((#) x) (product_repeat xs i)) xs)" "ys \<noteq> zs"
    then show "set ys \<inter> set zs = {}" by auto
  qed
  then show ?case by simp
qed

lemma upto_from_one: "[1..n] = map (\<lambda>k. int (Suc k)) [0..<nat n]"
  by (rule nth_equalityI) simp_all

lemma get_combinations_tuples:
  "get_combinations marks n (Some m) = map concat (tuples_upto marks m (nat n))"
proof -
  have "nat (1 + int k) = Suc k" for k by simp
  then show ?thesis
    by (simp add: get_combinations_def tuples_upto_def skipped_def upto_from_one map_concat
          comp_def del: product_repeat.simps)
qed

lemma set_tuples_upto:
  "set (tuples_upto marks m N) =
     {c. c \<noteq> [] \<and> length c \<le> N \<and> set c \<subseteq> set marks \<and> last c = m}"
proof (rule set_eqI)
  fix c
  have "c \<in> set (tuples_upto marks m N) \<longleftrightarrow>
          (\<exists>k<N. length c = Suc k \<and> set c \<subseteq> set marks \<and> last c = m)"
    by (auto simp add: tuples_upto_def set_product_repeat simp del: product_repeat.simps)
  also have "\<dots> \<longleftrightarrow> c \<noteq> [] \<and> length c \<le> N \<and> set c \<subseteq> set marks \<and> last c = m"
    by (cases c) auto
  finally show "c \<in> set (tuples_upto marks m N) \<longleftrightarrow>
     c \<in> {c. c \<noteq> [] \<and> length c \<le> N \<and> set c \<subseteq> set marks \<and> last c = m}"
    by simp
qed

lemma tuples_upto_Suc:
  "tuples_upto marks m (Suc N) =
     tuples_upto marks m N @ filter (\<lambda>comb. last comb = m) (product_repeat marks (Suc N))"
  by (simp add: tuples_upto_def del: product_repeat.simps)

lemma sorted_tuples_upto: "sorted (map length (tuples_upto marks m N))"
proof (induction N)
  case 0
  show ?case by (simp add: tuples_upto_def)
next
  case (Suc N)
  have "\<forall>c \<in> set (tuples_upto marks m N). length c \<le> N"
    by (simp add: set_tuples_upto)
  moreover have "\<forall>c \<in> set (filter (\<lambda>comb. last comb = m) (product_repeat marks (Suc N))).
                   length c = Suc N"
    by (simp add: set_product_repeat del: product_repeat.simps)
  moreover have "sorted (map length (filter (\<lambda>comb. last comb = m) (product_repeat marks (Suc N))))"
    using calculation(2) by (rule sorted_equal_lengths)
  ultimately show ?case
    using Suc.IH by (auto simp add: tuples_upto_Suc sorted_append)
qed

lemma distinct_tuples_upto: "distinct marks \<Longrightarrow> distinct (tuples_upto marks m N)"
proof (induction N)
  case 0
  show ?case by (simp add: tuples_upto_def)
next
  case (Suc N)
  have "set (tuples_upto marks m N)
          \<inter> set (filter (\<lambda>comb. last comb = m) (product_repeat marks (Suc N))) = {}"
    by (auto simp add: set_tuples_upto set_product_repeat simp del: product_repeat.simps)
  then show ?case
    using Suc by (simp add: tuples_upto_Suc distinct_product_repeat del: product_repeat.simps)
qed

text \<open>
  C6. For every list of marks, bound \<open>n\<close> and end mark, \<open>get_combinations\<close> returns
  the concatenations of a list of tuples: the tuples are exactly the tuples over the marks,
  of each length from 1 to \<open>n\<close>, whose last element is the end mark; shorter tuples come
  before longer ones; no tuple comes twice when no mark does; and where every mark is one
  character, each string returned is as long as its tuple and its last character is the
  end mark.
\<close>

theorem get_combinations_enumerates:
  "\<exists>tuples. get_combinations marks n (Some m) = map concat tuples
     \<and> set tuples = {c. c \<noteq> [] \<and> int (length c) \<le> n \<and> set c \<subseteq> set marks \<and> last c = m}
     \<and> sorted (map length tuples)
     \<and> (distinct marks \<longrightarrow> distinct tuples)
     \<and> ((\<forall>x \<in> set marks. length x = 1) \<longrightarrow>
          map length (get_combinations marks n (Some m)) = map length tuples
          \<and> (\<forall>s \<in> set (get_combinations marks n (Some m)). s \<noteq> [] \<and> [last s] = m))"
proof (intro exI [of _ "tuples_upto marks m (nat n)"] conjI impI)
  show "get_combinations marks n (Some m) = map concat (tuples_upto marks m (nat n))"
    by (rule get_combinations_tuples)
  show "set (tuples_upto marks m (nat n)) =
          {c. c \<noteq> [] \<and> int (length c) \<le> n \<and> set c \<subseteq> set marks \<and> last c = m}"
    by (auto simp add: set_tuples_upto length_le_nat_iff)
  show "sorted (map length (tuples_upto marks m (nat n)))"
    by (rule sorted_tuples_upto)
  show "distinct (tuples_upto marks m (nat n))" if "distinct marks"
    using that by (rule distinct_tuples_upto)
next
  assume single: "\<forall>x \<in> set marks. length x = 1"
  have len: "length (concat c) = length c" if "set c \<subseteq> set marks" for c
    using that single by (induction c) auto
  show "map length (get_combinations marks n (Some m)) = map length (tuples_upto marks m (nat n))"
    by (auto simp add: get_combinations_tuples set_tuples_upto len)
  show "\<forall>s \<in> set (get_combinations marks n (Some m)). s \<noteq> [] \<and> [last s] = m"
  proof
    fix s assume "s \<in> set (get_combinations marks n (Some m))"
    then obtain c where c: "s = concat c" "c \<noteq> []" "set c \<subseteq> set marks" "last c = m"
      by (auto simp add: get_combinations_tuples set_tuples_upto)
    then have "c = butlast c @ [m]" by (metis append_butlast_last_id)
    then have s: "s = concat (butlast c) @ m" using c(1) by (metis concat_append concat.simps append_Nil2)
    have "m \<in> set marks" using c by (metis last_in_set subsetD)
    then have "length m = 1" using single by simp
    then obtain ch where "m = [ch]" by (cases m) auto
    with s show "s \<noteq> [] \<and> [last s] = m" by simp
  qed
qed

lemma get_combinations_two:
  \<open>get_combinations [''}'', '']''] 2 (Some '']'') = ['']'', ''}]'', '']]'']\<close>
  by code_simp

theorem get_combinations_enumerates_witness:
  \<open>get_combinations [''}'', '']''] 2 (Some '']'') = ['']'', ''}]'', '']]'']
   \<and> distinct [''}'', '']'']
   \<and> list_all (\<lambda>x. length x = 1) [''}'', '']'']
   \<and> (\<exists>tuples. get_combinations [''}'', '']''] 2 (Some '']'') = map concat tuples
         \<and> set tuples = {c. c \<noteq> [] \<and> int (length c) \<le> 2 \<and> set c \<subseteq> set [''}'', '']'']
                              \<and> last c = '']''}
         \<and> sorted (map length tuples)
         \<and> distinct tuples
         \<and> map length (get_combinations [''}'', '']''] 2 (Some '']'')) = map length tuples
         \<and> (\<forall>s \<in> set (get_combinations [''}'', '']''] 2 (Some '']'')).
               s \<noteq> [] \<and> [last s] = '']''))\<close>
proof -
  have d: \<open>distinct [''}'', '']'']\<close> by simp
  have l: \<open>list_all (\<lambda>x. length x = 1) [''}'', '']'']\<close> by simp
  have s: \<open>\<forall>x \<in> set [''}'', '']'']. length x = 1\<close> by simp
  from get_combinations_enumerates [of \<open>[''}'', '']'']\<close> 2 \<open>'']''\<close>] d s
  have \<open>\<exists>tuples. get_combinations [''}'', '']''] 2 (Some '']'') = map concat tuples
         \<and> set tuples = {c. c \<noteq> [] \<and> int (length c) \<le> 2 \<and> set c \<subseteq> set [''}'', '']'']
                              \<and> last c = '']''}
         \<and> sorted (map length tuples)
         \<and> distinct tuples
         \<and> map length (get_combinations [''}'', '']''] 2 (Some '']'')) = map length tuples
         \<and> (\<forall>s \<in> set (get_combinations [''}'', '']''] 2 (Some '']'')).
               s \<noteq> [] \<and> [last s] = '']'')\<close>
    by blast
  with get_combinations_two d l show ?thesis by (intro conjI)
qed

subsection \<open>Selection of the candidate marks\<close>

lemma get_combinations_no_marks: "get_combinations [] n should_end_mark = []"
proof -
  have "nat (1 + int k) = Suc k" for k by simp
  then show ?thesis
    by (simp add: get_combinations_def upto_from_one comp_def)
qed

text \<open>
  Without a brace and without a bracket in the text there is no candidate mark and no
  completion string, the list of completions stays empty, and the call of
  \<open>find_max_length\<close> raises, however the function is bound.
\<close>

lemma get_possible_completions_no_marks:
  assumes "CHR ''{'' \<notin> set json_str" and "CHR ''['' \<notin> set json_str"
  shows "get_possible_completions env loads strf json_str n =
     Inl (if py_strip json_str = [] then Exc IndexError ''string index out of range''
          else case find_max_length_attr env of
                 Function \<Rightarrow>
                   Exc TypeError
                     ''Parser.find_max_length() takes 1 positional argument but 2 were given''
               | StaticMethod \<Rightarrow> Exc ValueError ''max() arg is an empty sequence''
               | Value v \<Rightarrow> not_callable v)"
proof (cases "py_strip json_str")
  case Nil
  then show ?thesis by (simp add: get_possible_completions_def)
next
  case (Cons c cs)
  have "candidate_marks_of json_str = []"
    using assms by (simp add: candidate_marks_of_def)
  with Cons show ?thesis
    by (simp add: get_possible_completions_def Let_def get_combinations_no_marks
          call_attribute_def call_find_max_length call_static_find_max_length
          find_max_length_def split: binding.split)
qed

lemma no_marks_after_strip:
  assumes "CHR ''{'' \<notin> set json_str" and "CHR ''['' \<notin> set json_str"
  shows "CHR ''{'' \<notin> set (strip_trailing_brackets json_str)
         \<and> CHR ''['' \<notin> set (strip_trailing_brackets json_str)"
proof -
  have "set (strip_trailing_brackets json_str) \<subseteq> set json_str"
    unfolding strip_trailing_brackets_def using set_dropWhileD by fastforce
  with assms show ?thesis by blast
qed

text \<open>
  C7. A string that holds \<open>{\<close> and no \<open>[\<close> gets exactly the candidate mark \<open>}\<close>. A
  string that holds neither gets no candidate mark, also after the brackets that end it
  are removed; then no completion string is generated, and \<open>get_possible_completions\<close>
  returns no ranked suggestions but raises: \<open>IndexError\<close> on a blank string, and
  otherwise the exception of the call of \<open>find_max_length\<close> with the empty list, which is
  the \<open>TypeError\<close> of the function defined without \<open>self\<close>, or the \<open>ValueError\<close>
  of \<open>max\<close> where the function is bound as a static method. Where the evaluation of such
  a string leaves the three names bound as the module binds them, \<open>fit\<close> returns the
  \<open>completed\<close> dictionary if the evaluation returns an object, the \<open>failed\<close>
  dictionary with the message of that exception if the evaluation raises an exception
  derived from \<open>Exception\<close>, and otherwise the exception of the evaluation leaves
  \<open>fit\<close>.
\<close>

theorem candidate_marks_selection:
  "(CHR ''{'' \<in> set string \<and> CHR ''['' \<notin> set string \<longrightarrow> candidate_marks_of string = [''}''])
   \<and> (CHR ''{'' \<notin> set string \<and> CHR ''['' \<notin> set string \<longrightarrow>
         candidate_marks_of string = []
         \<and> candidate_marks_of (strip_trailing_brackets string) = []
         \<and> get_combinations (candidate_marks_of string) n should_end_mark = []
         \<and> get_possible_completions env loads strf string n =
             Inl (if py_strip string = [] then Exc IndexError ''string index out of range''
                  else case find_max_length_attr env of
                         Function \<Rightarrow>
                           Exc TypeError
                             ''Parser.find_max_length() takes 1 positional argument but 2 were given''
                       | StaticMethod \<Rightarrow> Exc ValueError ''max() arg is an empty sequence''
                       | Value v \<Rightarrow> not_callable v)
         \<and> (snd (evalf module_env string) = module_env \<longrightarrow>
              (case fst (evalf module_env string) of
                 Inr output \<Rightarrow>
                   fit evalf loads strf module_env string n =
                     (Inr \<lparr>status = ''completed'', object_type = Some (py_type output),
                           data = Completion output []\<rparr>,
                      module_env)
               | Inl e \<Rightarrow>
                   if is_Exception e
                   then fit evalf loads strf module_env string n =
                          (Inr \<lparr>status = ''failed'', object_type = None,
                                data = ErrorMessage
                                  (if py_strip (strip_trailing_brackets string) = []
                                   then ''string index out of range''
                                   else ''Parser.find_max_length() takes 1 positional argument but 2 were given'')\<rparr>,
                           module_env)
                   else fit evalf loads strf module_env string n = (Inl e, module_env))))"
proof (intro conjI impI)
  assume "CHR ''{'' \<in> set string \<and> CHR ''['' \<notin> set string"
  then show "candidate_marks_of string = [''}'']"
    by (simp add: candidate_marks_of_def)
next
  assume none: "CHR ''{'' \<notin> set string \<and> CHR ''['' \<notin> set string"
  then show empty: "candidate_marks_of string = []"
    by (simp add: candidate_marks_of_def)
  show "candidate_marks_of (strip_trailing_brackets string) = []"
    using no_marks_after_strip [of string] none by (simp add: candidate_marks_of_def)
  show "get_combinations (candidate_marks_of string) n should_end_mark = []"
    by (simp only: empty get_combinations_no_marks)
  show "get_possible_completions env loads strf string n =
             Inl (if py_strip string = [] then Exc IndexError ''string index out of range''
                  else case find_max_length_attr env of
                         Function \<Rightarrow>
                           Exc TypeError
                             ''Parser.find_max_length() takes 1 positional argument but 2 were given''
                       | StaticMethod \<Rightarrow> Exc ValueError ''max() arg is an empty sequence''
                       | Value v \<Rightarrow> not_callable v)"
    using none by (intro get_possible_completions_no_marks) simp_all
next
  assume "CHR ''{'' \<notin> set string \<and> CHR ''['' \<notin> set string"
    and unchanged: "snd (evalf module_env string) = module_env"
  obtain outcome where outcome: "evalf module_env string = (outcome, module_env)"
    using unchanged by (cases "evalf module_env string") simp
  note fit = fit_outcome [where evalf = evalf and json_str = string and loads = loads
                            and strf = strf and n = n, OF outcome]
  show "case fst (evalf module_env string) of
          Inr output \<Rightarrow>
            fit evalf loads strf module_env string n =
              (Inr \<lparr>status = ''completed'', object_type = Some (py_type output),
                    data = Completion output []\<rparr>,
               module_env)
        | Inl e \<Rightarrow>
            if is_Exception e
            then fit evalf loads strf module_env string n =
                   (Inr \<lparr>status = ''failed'', object_type = None,
                         data = ErrorMessage
                           (if py_strip (strip_trailing_brackets string) = []
                            then ''string index out of range''
                            else ''Parser.find_max_length() takes 1 positional argument but 2 were given'')\<rparr>,
                    module_env)
            else fit evalf loads strf module_env string n = (Inl e, module_env)"
    by (simp add: outcome fit split: sum.split)
qed

lemma completions_of_name:
  \<open>py_strip ''nul'' = ''nul''\<close>
  by code_simp

theorem candidate_marks_selection_witness:
  \<open>CHR ''{'' \<in> set ''{"a": 1'' \<and> CHR ''['' \<notin> set ''{"a": 1''
   \<and> candidate_marks_of ''{"a": 1'' = [''}'']
   \<and> CHR ''{'' \<notin> set ''nul'' \<and> CHR ''['' \<notin> set ''nul''
   \<and> candidate_marks_of ''nul'' = []
   \<and> candidate_marks_of (strip_trailing_brackets ''nul'') = []
   \<and> get_combinations (candidate_marks_of ''nul'') 5 (Some ''}'') = []
   \<and> get_possible_completions
        \<lparr>re_sub = Function, complete_json_object_attr = StaticMethod,
          find_max_length_attr = StaticMethod\<rparr>
        json_loads py_str ''nul'' 5
       = Inl (Exc ValueError ''max() arg is an empty sequence'')
   \<and> snd (py_eval module_env ''nul'') = module_env
   \<and> fst (py_eval module_env ''nul'') = Inl (Exc NameError ''name 'nul' is not defined'')
   \<and> is_Exception (Exc NameError ''name 'nul' is not defined'')
   \<and> fit py_eval json_loads py_str module_env ''nul'' 5
       = (Inr \<lparr>status = ''failed'', object_type = None,
               data = ErrorMessage
                 ''Parser.find_max_length() takes 1 positional argument but 2 were given''\<rparr>,
          module_env)\<close>
proof -
  have a: \<open>CHR ''{'' \<in> set ''{"a": 1'' \<and> CHR ''['' \<notin> set ''{"a": 1''\<close> by simp
  have b: \<open>CHR ''{'' \<notin> set ''nul'' \<and> CHR ''['' \<notin> set ''nul''\<close> by simp
  have unchanged: \<open>snd (py_eval module_env ''nul'') = module_env\<close>
    by (simp add: py_eval_nul)
  have raised: \<open>fst (py_eval module_env ''nul'')
                  = Inl (Exc NameError ''name 'nul' is not defined'')\<close>
    by (simp add: py_eval_nul)
  have exception: \<open>is_Exception (Exc NameError ''name 'nul' is not defined'')\<close>
    by (simp add: is_Exception_def)
  from candidate_marks_selection [where string = \<open>''{"a": 1''\<close>] a
  have first: \<open>candidate_marks_of ''{"a": 1'' = [''}'']\<close> by blast
  note second = candidate_marks_selection
         [where string = \<open>''nul''\<close> and n = 5 and should_end_mark = \<open>Some ''}''\<close>
            and loads = json_loads and strf = py_str and evalf = py_eval
            and env = \<open>\<lparr>re_sub = Function, complete_json_object_attr = StaticMethod,
                         find_max_length_attr = StaticMethod\<rparr>\<close>]
  from second b have c: \<open>candidate_marks_of ''nul'' = []\<close> by blast
  from second b have d: \<open>candidate_marks_of (strip_trailing_brackets ''nul'') = []\<close>
    by blast
  from second b
  have e: \<open>get_combinations (candidate_marks_of ''nul'') 5 (Some ''}'') = []\<close> by blast
  from second b
  have \<open>get_possible_completions
          \<lparr>re_sub = Function, complete_json_object_attr = StaticMethod,
            find_max_length_attr = StaticMethod\<rparr>
          json_loads py_str ''nul'' 5
        = Inl (if py_strip ''nul'' = [] then Exc IndexError ''string index out of range''
               else case find_max_length_attr
                           \<lparr>re_sub = Function, complete_json_object_attr = StaticMethod,
                             find_max_length_attr = StaticMethod\<rparr> of
                      Function \<Rightarrow>
                        Exc TypeError
                          ''Parser.find_max_length() takes 1 positional argument but 2 were given''
                    | StaticMethod \<Rightarrow> Exc ValueError ''max() arg is an empty sequence''
                    | Value v \<Rightarrow> not_callable v)\<close>
    by blast
  then have f: \<open>get_possible_completions
          \<lparr>re_sub = Function, complete_json_object_attr = StaticMethod,
            find_max_length_attr = StaticMethod\<rparr>
          json_loads py_str ''nul'' 5
        = Inl (Exc ValueError ''max() arg is an empty sequence'')\<close>
    by (simp add: completions_of_name)
  from second b unchanged
  have \<open>case fst (py_eval module_env ''nul'') of
          Inr output \<Rightarrow>
            fit py_eval json_loads py_str module_env ''nul'' 5 =
              (Inr \<lparr>status = ''completed'', object_type = Some (py_type output),
                    data = Completion output []\<rparr>,
               module_env)
        | Inl e \<Rightarrow>
            if is_Exception e
            then fit py_eval json_loads py_str module_env ''nul'' 5 =
                   (Inr \<lparr>status = ''failed'', object_type = None,
                         data = ErrorMessage
                           (if py_strip (strip_trailing_brackets ''nul'') = []
                            then ''string index out of range''
                            else ''Parser.find_max_length() takes 1 positional argument but 2 were given'')\<rparr>,
                    module_env)
            else fit py_eval json_loads py_str module_env ''nul'' 5 = (Inl e, module_env)\<close>
    by blast
  then have g: \<open>fit py_eval json_loads py_str module_env ''nul'' 5
       = (Inr \<lparr>status = ''failed'', object_type = None,
               data = ErrorMessage
                 ''Parser.find_max_length() takes 1 positional argument but 2 were given''\<rparr>,
          module_env)\<close>
    by (simp add: raised exception stripped_nul)
  from a first b c d e f unchanged raised exception g show ?thesis by (intro conjI) simp_all
qed

text \<open>
  The text \<open>1+1\<close> holds no brace and no bracket, and \<open>fit\<close> returns neither the
  \<open>failed\<close> dictionary nor an outcome without candidates on it: the evaluation of the
  text returns 2, and \<open>fit\<close> returns the \<open>completed\<close> dictionary.
\<close>

theorem fit_completes_text_without_brackets:
  \<open>CHR ''{'' \<notin> set ''1+1'' \<and> CHR ''['' \<notin> set ''1+1''
   \<and> candidate_marks_of ''1+1'' = []
   \<and> fit py_eval json_loads py_str module_env ''1+1'' 5
       = (Inr \<lparr>status = ''completed'', object_type = Some TInt,
               data = Completion (PInt 2) []\<rparr>,
          module_env)\<close>
  by (simp add: candidate_marks_of_def fit_py_eval [OF py_eval_sum])

theorem fit_status_never_incomplete_witness:
  \<open>snd (py_eval module_env ''{"a": 1, "b": 2'') = module_env
   \<and> fst (py_eval module_env ''{"a": 1, "b": 2'') = Inl (Exc SyntaxError ''invalid syntax'')
   \<and> is_Exception (Exc SyntaxError ''invalid syntax'')
   \<and> (\<exists>e. call_attribute Function ''Parser.complete_json_object''
            [''json_str'', ''completion_str'']
            (complete_json_object_def json_loads) [StrArg ''{"a": 1, "b": 2'', StrArg ''}'']
            = Inl e
          \<and> exc_class_of e = TypeError)
   \<and> (\<exists>e. call_attribute Function ''Parser.find_max_length'' [''data_list'']
            (find_max_length_def py_str) [ListArg []] = Inl e
          \<and> exc_class_of e = TypeError)
   \<and> (\<exists>e. get_possible_completions module_env json_loads py_str
              (strip_trailing_brackets ''{"a": 1, "b": 2'') 5 = Inl e
          \<and> fit py_eval json_loads py_str module_env ''{"a": 1, "b": 2'' 5
              = (Inr \<lparr>status = ''failed'', object_type = None,
                      data = ErrorMessage (exc_message e)\<rparr>,
                 module_env))
   \<and> \<not> (\<exists>r. fst (fit py_eval json_loads py_str module_env ''{"a": 1, "b": 2'' 5) = Inr r
             \<and> status r = ''incomplete'')\<close>
proof -
  have unchanged: \<open>snd (py_eval module_env ''{"a": 1, "b": 2'') = module_env\<close>
    by (simp add: py_eval_truncated_object)
  have raised: \<open>fst (py_eval module_env ''{"a": 1, "b": 2'')
                  = Inl (Exc SyntaxError ''invalid syntax'')\<close>
    by (simp add: py_eval_truncated_object)
  have exception: \<open>is_Exception (Exc SyntaxError ''invalid syntax'')\<close>
    by (simp add: is_Exception_def)
  note applied = fit_status_never_incomplete
         [where evalf = py_eval and loads = json_loads and strf = py_str and n = 5
            and json_str = \<open>''{"a": 1, "b": 2''\<close> and string = \<open>''{"a": 1, "b": 2''\<close>
            and completion_str = \<open>''}''\<close> and completions = \<open>[]\<close>, OF unchanged]
  from applied have a: \<open>\<exists>e. call_attribute Function ''Parser.complete_json_object''
            [''json_str'', ''completion_str'']
            (complete_json_object_def json_loads) [StrArg ''{"a": 1, "b": 2'', StrArg ''}'']
            = Inl e
          \<and> exc_class_of e = TypeError\<close>
    by (rule conjunct1)
  from applied have b: \<open>\<exists>e. call_attribute Function ''Parser.find_max_length'' [''data_list'']
            (find_max_length_def py_str) [ListArg []] = Inl e
          \<and> exc_class_of e = TypeError\<close>
    by (elim conjE)
  from applied raised exception
  have c: \<open>\<exists>e. get_possible_completions module_env json_loads py_str
              (strip_trailing_brackets ''{"a": 1, "b": 2'') 5 = Inl e
          \<and> fit py_eval json_loads py_str module_env ''{"a": 1, "b": 2'' 5
              = (Inr \<lparr>status = ''failed'', object_type = None,
                      data = ErrorMessage (exc_message e)\<rparr>,
                 module_env)\<close>
    by simp
  from applied
  have d: \<open>\<not> (\<exists>r. fst (fit py_eval json_loads py_str module_env ''{"a": 1, "b": 2'' 5) = Inr r
             \<and> status r = ''incomplete'')\<close>
    by (elim conjE)
  from unchanged raised exception a b c d show ?thesis by (intro conjI)
qed

subsection \<open>An input that rebinds the two functions\<close>

lemma json_token_no_json: "json_token (CHR ''s'' # rest) = None"
  by (simp add: json_token_def json_number_def json_integer_part_def is_digit_def)

lemma json_token_bracket: "json_token (CHR ''['' # rest) = Some (JLBracket, rest)"
  by (simp add: json_token_def)

lemma json_loads_no_json:
  "json_loads ((CHR ''['' # CHR ''s'' # rest) @ c) = JSONDecodeError"
proof -
  have "json_tokens 0 (CHR ''['' # CHR ''s'' # rest @ c) = [JLBracket, JBad]"
    by (simp add: json_whitespace_def json_token_bracket json_token_no_json)
  then show ?thesis
    by (simp add: json_loads_def Let_def numeral_eq_Suc)
qed

lemma prefix_longer_than_one:
  assumes "prefix q (a # b # rest)" and "1 < length q"
  shows "\<exists>x. q = a # b # x"
proof (cases q)
  case Nil
  with assms show ?thesis by simp
next
  case (Cons a' q')
  with assms obtain b' x where "q' = b' # x" by (cases q') auto
  with Cons assms show ?thesis by simp
qed

text \<open>
  A text that starts with \<open>[s\<close> parses with no completion string before it is
  truncated to \<open>[\<close>.
\<close>

lemma complete_after_bracket:
  "complete_json_object json_loads (CHR ''['' # CHR ''s'' # rest) c
     = (case json_loads (''['' @ c) of
          Loaded v \<Rightarrow> Inr v
        | Raises e \<Rightarrow> Inl e
        | JSONDecodeError \<Rightarrow> Inl (Exc ValueError ''Couldn't fix JSON''))"
proof (cases "json_loads (''['' @ c) = JSONDecodeError")
  case False
  have longer: "\<forall>q. prefix q (CHR ''['' # CHR ''s'' # rest) \<and> length ''['' < length q
                  \<longrightarrow> json_loads (q @ c) = JSONDecodeError"
  proof (intro allI impI)
    fix q assume "prefix q (CHR ''['' # CHR ''s'' # rest) \<and> length ''['' < length q"
    then obtain x where "q = CHR ''['' # CHR ''s'' # x"
      using prefix_longer_than_one [of q "CHR ''[''" "CHR ''s''" rest] by auto
    then show "json_loads (q @ c) = JSONDecodeError"
      by (simp only: json_loads_no_json)
  qed
  have "complete_json_object_loop json_loads 0 (CHR ''['' # CHR ''s'' # rest) c =
          (0 + (length (CHR ''['' # CHR ''s'' # rest) - length ''['') + 1,
           case json_loads (''['' @ c) of Loaded v \<Rightarrow> Inr v | Raises e \<Rightarrow> Inl e
           | JSONDecodeError \<Rightarrow> Inl (Exc ValueError ''Couldn't fix JSON''))"
    using longer False by (intro complete_json_object_loop_longest) simp_all
  then show ?thesis by (simp add: complete_json_object_def)
next
  case True
  have "\<forall>p. p \<noteq> [] \<and> prefix p (CHR ''['' # CHR ''s'' # rest)
          \<longrightarrow> json_loads (p @ c) = JSONDecodeError"
  proof (intro allI impI)
    fix p assume p: "p \<noteq> [] \<and> prefix p (CHR ''['' # CHR ''s'' # rest)"
    show "json_loads (p @ c) = JSONDecodeError"
    proof (cases "1 < length p")
      case True
      then obtain x where "p = CHR ''['' # CHR ''s'' # x"
        using p prefix_longer_than_one [of p "CHR ''[''" "CHR ''s''" rest] by auto
      then show ?thesis by (simp only: json_loads_no_json)
    next
      case False
      with p have "length p = 1" by (cases p) simp_all
      with p have "p = ''[''" by (cases p) simp_all
      with \<open>json_loads (''['' @ c) = JSONDecodeError\<close> show ?thesis by simp
    qed
  qed
  then have "complete_json_object_loop json_loads 0 (CHR ''['' # CHR ''s'' # rest) c
               = (0 + length (CHR ''['' # CHR ''s'' # rest),
                  Inl (Exc ValueError ''Couldn't fix JSON''))"
    by (rule complete_json_object_loop_exhausted)
  with True show ?thesis by (simp add: complete_json_object_def)
qed

lemma json_loads_closed_brackets:
  \<open>json_loads ''[]'' = Loaded (PList [])\<close>
  \<open>json_loads ''[]]'' = JSONDecodeError\<close>
  \<open>json_loads ''[]]]'' = JSONDecodeError\<close>
  \<open>json_loads ''[]]]]'' = JSONDecodeError\<close>
  \<open>json_loads ''[]]]]]'' = JSONDecodeError\<close>
  by code_simp+

lemma stripped_rebinding_input:
  \<open>strip_trailing_brackets ''[setattr(Parser,'complete_json_object',staticmethod(Parser.complete_json_object)),setattr(Parser,'find_max_length',staticmethod(Parser.find_max_length)),x]''
     = ''[setattr(Parser,'complete_json_object',staticmethod(Parser.complete_json_object)),setattr(Parser,'find_max_length',staticmethod(Parser.find_max_length)),x''\<close>
  by code_simp

lemma marks_of_rebinding_input:
  \<open>candidate_marks_of ''[setattr(Parser,'complete_json_object',staticmethod(Parser.complete_json_object)),setattr(Parser,'find_max_length',staticmethod(Parser.find_max_length)),x''
     = ['']'']\<close>
  by code_simp

lemma strip_of_rebinding_input:
  \<open>py_strip ''[setattr(Parser,'complete_json_object',staticmethod(Parser.complete_json_object)),setattr(Parser,'find_max_length',staticmethod(Parser.find_max_length)),x''
     = ''[setattr(Parser,'complete_json_object',staticmethod(Parser.complete_json_object)),setattr(Parser,'find_max_length',staticmethod(Parser.find_max_length)),x''\<close>
  by code_simp

lemma combinations_of_brackets:
  \<open>get_combinations ['']''] 5 (Some '']'') = ['']'', '']]'', '']]]'', '']]]]'', '']]]]]'']\<close>
  by code_simp

lemma find_max_length_empty_list:
  \<open>find_max_length py_str [PList []]
     = Inr \<lparr>completion = PList [], suggestions = [PList []]\<rparr>\<close>
  by code_simp

lemma completions_after_rebinding:
  \<open>get_possible_completions
      \<lparr>re_sub = Function, complete_json_object_attr = StaticMethod,
        find_max_length_attr = StaticMethod\<rparr>
      json_loads py_str
      ''[setattr(Parser,'complete_json_object',staticmethod(Parser.complete_json_object)),setattr(Parser,'find_max_length',staticmethod(Parser.find_max_length)),x''
      5
     = Inr \<lparr>completion = PList [], suggestions = [PList []]\<rparr>\<close>
  unfolding get_possible_completions_def marks_of_rebinding_input strip_of_rebinding_input
  by (simp add: combinations_of_brackets call_attribute_def call_static_complete_json_object
        call_static_find_max_length complete_after_bracket json_loads_closed_brackets
        find_max_length_empty_list is_Exception_def)

text \<open>
  Without the condition on the bindings the statement fails. The first input rebinds the two
  functions of the class to static methods and then raises \<open>NameError\<close>: the calls
  through the instance now succeed, and \<open>fit\<close> returns the \<open>incomplete\<close> dictionary.
  The evaluation of the second input fails with \<open>SystemExit\<close>, which \<open>fit\<close> does not
  turn into a \<open>failed\<close> dictionary: the exception leaves \<open>fit\<close>.
\<close>

theorem fit_returns_incomplete_after_rebinding:
  \<open>fit py_eval json_loads py_str module_env
      ''[setattr(Parser,'complete_json_object',staticmethod(Parser.complete_json_object)),setattr(Parser,'find_max_length',staticmethod(Parser.find_max_length)),x]''
      5
     = (Inr \<lparr>status = ''incomplete'', object_type = None,
             data = Suggestions \<lparr>completion = PList [], suggestions = [PList []]\<rparr>\<rparr>,
        \<lparr>re_sub = Function, complete_json_object_attr = StaticMethod,
          find_max_length_attr = StaticMethod\<rparr>)
   \<and> fit py_eval json_loads py_str module_env ''quit()'' 5
     = (Inl (Exc SystemExit ''None''), module_env)\<close>
  by (simp add: fit_def py_eval_rebinds_class py_eval_quit is_Exception_def call_sub_def
        stripped_rebinding_input completions_after_rebinding)

section \<open>\<open>fit\<close> on the examples\<close>

text \<open>
  C1. On the truncated object \<open>{"a": 1, "b": 2\<close>, \<open>fit\<close> returns the \<open>failed\<close>
  dictionary whose message is that of the \<open>TypeError\<close> raised by the call of
  \<open>find_max_length\<close>, and not an \<open>incomplete\<close> dictionary whose suggestions hold the
  object with the keys \<open>a\<close> and \<open>b\<close>; on the complete object \<open>{"a": 1, "b": 2}\<close>
  it returns the \<open>completed\<close> dictionary with that object, of type \<open>dict\<close>, and no
  suggestions. Neither evaluation rebinds a name.
\<close>

theorem fit_truncated_object:
  \<open>fit py_eval json_loads py_str module_env ''{"a": 1, "b": 2'' n
     = (Inr \<lparr>status = ''failed'', object_type = None,
             data = ErrorMessage
               ''Parser.find_max_length() takes 1 positional argument but 2 were given''\<rparr>,
        module_env)
   \<and> fit py_eval json_loads py_str module_env ''{"a": 1, "b": 2}'' n
     = (Inr \<lparr>status = ''completed'', object_type = Some TDict,
             data = Completion (PDict [(PStr ''a'', PInt 1), (PStr ''b'', PInt 2)]) []\<rparr>,
        module_env)\<close>
  by (simp add: fit_py_eval [OF py_eval_truncated_object]
        fit_py_eval [OF py_eval_complete_object] stripped_truncated_object is_Exception_def)

text \<open>
  C3. The rendering \<open>{"a": true}\<close> of an object that holds a boolean is accepted by
  \<open>json.loads\<close>, and \<open>fit\<close> returns the \<open>failed\<close> dictionary on it, not the
  \<open>completed\<close> one: \<open>eval\<close> raises \<open>NameError\<close> on the name \<open>true\<close>.
\<close>

theorem fit_json_true:
  \<open>json_loads ''{"a": true}'' = Loaded (PDict [(PStr ''a'', PBool True)])
   \<and> fit py_eval json_loads py_str module_env ''{"a": true}'' n
     = (Inr \<lparr>status = ''failed'', object_type = None,
             data = ErrorMessage
               ''Parser.find_max_length() takes 1 positional argument but 2 were given''\<rparr>,
        module_env)\<close>
  by (simp add: fit_py_eval [OF py_eval_json_true] json_loads_json_true stripped_json_true
        is_Exception_def)

text \<open>
  C10. The strings \<open>{'a': 1}\<close> and \<open>1+1\<close> are not valid JSON, and \<open>fit\<close> returns
  the \<open>completed\<close> dictionary on both, with the values that \<open>eval\<close> gives them: a
  dictionary with the key \<open>a\<close>, and the integer 2.
\<close>

theorem fit_completes_non_json:
  \<open>is_valid_json json_loads ''{'a': 1}'' = Inr False
   \<and> fit py_eval json_loads py_str module_env ''{'a': 1}'' n
       = (Inr \<lparr>status = ''completed'', object_type = Some TDict,
               data = Completion (PDict [(PStr ''a'', PInt 1)]) []\<rparr>,
          module_env)
   \<and> is_valid_json json_loads ''1+1'' = Inr False
   \<and> fit py_eval json_loads py_str module_env ''1+1'' n
       = (Inr \<lparr>status = ''completed'', object_type = Some TInt,
               data = Completion (PInt 2) []\<rparr>,
          module_env)\<close>
  by (simp add: fit_py_eval [OF py_eval_single_quotes] fit_py_eval [OF py_eval_sum]
        is_valid_json_def json_loads_single_quotes json_loads_sum)




section \<open>Properties of \<open>extract_complete_objects\<close>\<close>

lemma up_to_closing_Some:
  assumes "up_to_closing closing opening cs = Some between"
  shows "\<exists>rest. cs = between @ closing # rest"
proof -
  let ?P = "\<lambda>x. x \<noteq> closing \<and> x \<noteq> opening"
  obtain d rest where d: "dropWhile ?P cs = d # rest"
    using assms by (cases "dropWhile ?P cs") (simp_all add: up_to_closing_def)
  with assms have "d = closing" and b: "between = takeWhile ?P cs"
    by (simp_all add: up_to_closing_def split: if_splits)
  have "cs = takeWhile ?P cs @ dropWhile ?P cs" by simp
  with d b \<open>d = closing\<close> show ?thesis by metis
qed

lemma take_match:
  "take (length between + 2) (c # between @ closing # rest) = c # between @ [closing]"
  by simp

lemma match_here_closes:
  assumes "match_here previous s = Some n"
  shows "last (take n s) = CHR ''}'' \<or> last (take n s) = CHR '']''"
proof (cases s)
  case Nil
  with assms show ?thesis by (simp add: match_here_def split: if_splits)
next
  case (Cons c cs)
  consider (bracket) "c = CHR ''[''" | (brace) "c \<noteq> CHR ''[''" "c = CHR ''{''"
    | (other) "c \<noteq> CHR ''[''" "c \<noteq> CHR ''{''" by blast
  then show ?thesis
  proof cases
    case bracket
    with assms Cons obtain between where
      b: "up_to_closing (CHR '']'') (CHR ''['') cs = Some between" and n: "n = length between + 2"
      by (auto simp add: match_here_def split: if_splits option.splits)
    from up_to_closing_Some [OF b] obtain rest where "cs = between @ CHR '']'' # rest" ..
    with Cons n show ?thesis by (simp only: take_match) simp
  next
    case brace
    with assms Cons obtain between where
      b: "up_to_closing (CHR ''}'') (CHR ''{'') cs = Some between" and n: "n = length between + 2"
      by (auto simp add: match_here_def split: if_splits option.splits)
    from up_to_closing_Some [OF b] obtain rest where "cs = between @ CHR ''}'' # rest" ..
    with Cons n show ?thesis by (simp only: take_match) simp
  next
    case other
    with assms Cons show ?thesis by (simp add: match_here_def split: if_splits)
  qed
qed

lemma finditer_closes: "m \<in> set (finditer k previous pos s) \<Longrightarrow> closes m"
proof (induction k previous pos s rule: finditer.induct)
  case (1 k previous pos)
  then show ?case by simp
next
  case (2 k previous pos c cs)
  then show ?case by simp
next
  case (3 previous pos c cs)
  show ?case
  proof (cases "match_here previous (c # cs)")
    case None
    with 3 show ?thesis by simp
  next
    case (Some n)
    with 3 match_here_closes [OF Some] show ?thesis
      by (auto simp add: closes_def)
  qed
qed

lemma scan_match_idle: "idle s \<Longrightarrow> closes m \<Longrightarrow> idle (scan_match string s m)"
  by (simp add: idle_def closes_def scan_match_def Let_def)

lemma foldl_scan_match_idle:
  "idle s \<Longrightarrow> \<forall>m \<in> set ms. closes m \<Longrightarrow> idle (foldl (scan_match string) s ms)"
  by (induction ms arbitrary: s) (simp_all add: scan_match_idle)

lemma scan_all_idle: "stack (scan_all string) = []"
proof -
  have "idle (scan_all string)"
    unfolding scan_all_def
    by (rule foldl_scan_match_idle) (simp_all add: idle_def finditer_closes)
  then show ?thesis by (simp add: idle_def)
qed

lemma extract_two_objects:
  \<open>extract_complete_objects py_literal_eval ''{"a":1}{"b":2}''
     = ([], Inr [PDict [(PStr ''a'', PInt 1)], PDict [(PStr ''b'', PInt 2)]])\<close>
  by code_simp

lemma extract_dangling:
  \<open>extract_complete_objects py_literal_eval ''{"a":1'' = ([], Inr [])\<close>
  by code_simp

lemma finditer_dangling: \<open>finditer 0 None 0 ''{"a":1'' = []\<close>
  by code_simp

text \<open>
  C8. \<open>extract_complete_objects\<close> returns the two objects of \<open>{"a":1}{"b":2}\<close> in
  the order of the text and prints nothing; on \<open>{"a":1\<close> the pattern has no match, the
  function returns the empty list and prints nothing, so the dangling \<open>{\<close> is not
  reported. On every string the stack is empty when the scan ends, so that the line
  \<open>Error: Incomplete object at end of string\<close> is never printed: the function prints
  what the evaluation of the object strings prints, and nothing before it.
\<close>

theorem extract_complete_objects_examples:
  \<open>extract_complete_objects py_literal_eval ''{"a":1}{"b":2}''
     = ([], Inr [PDict [(PStr ''a'', PInt 1)], PDict [(PStr ''b'', PInt 2)]])
   \<and> finditer 0 None 0 ''{"a":1'' = []
   \<and> extract_complete_objects py_literal_eval ''{"a":1'' = ([], Inr [])
   \<and> stack (scan_all string) = []
   \<and> extract_complete_objects literal_eval string
       = evaluate_objects literal_eval (object_strings (scan_all string)) [] []\<close>
proof (intro conjI)
  show \<open>extract_complete_objects py_literal_eval ''{"a":1}{"b":2}''
          = ([], Inr [PDict [(PStr ''a'', PInt 1)], PDict [(PStr ''b'', PInt 2)]])\<close>
    by (rule extract_two_objects)
  show \<open>finditer 0 None 0 ''{"a":1'' = []\<close>
    by (rule finditer_dangling)
  show \<open>extract_complete_objects py_literal_eval ''{"a":1'' = ([], Inr [])\<close>
    by (rule extract_dangling)
  show "stack (scan_all string) = []"
    by (rule scan_all_idle)
  show "extract_complete_objects literal_eval string
          = evaluate_objects literal_eval (object_strings (scan_all string)) [] []"
    by (simp add: extract_complete_objects_def Let_def scan_all_idle)
qed


end
